theory Spec2Isabelle
  imports Complex_Main
begin

section \<open>Confidence tiers (MarkAttendance)\<close>

text \<open>
  The attendance screen classifies a detection's confidence three times: when it
  maps the response entries to \<^verbatim>\<open>DetectedStudent\<close> records (the \<^verbatim>\<open>status\<close> field), and in
  the two colour helpers \<^verbatim>\<open>getConfidenceColor\<close> and \<^verbatim>\<open>getConfidenceBarColor\<close>. A
  confidence is a number decoded from JSON, hence never NaN; it is modelled as a real
  and the literals \<^verbatim>\<open>0.85\<close> and \<^verbatim>\<open>0.7\<close> as the reals they denote.
\<close>

datatype status = Success | Warning | Error

definition status_of :: "real \<Rightarrow> status" where
  "status_of confidence =
     (if confidence \<ge> 0.85 then Success else if confidence \<ge> 0.7 then Warning else Error)"



section \<open>JavaScript values and exceptions\<close>

text \<open>
  A decoded JSON document. \<^verbatim>\<open>undefined\<close> is not a JSON value: a JavaScript value that may
  be \<^verbatim>\<open>undefined\<close> is a \<open>json option\<close>, with \<open>None\<close> for \<^verbatim>\<open>undefined\<close>. An object keeps its
  members as written; where a key is repeated \<^verbatim>\<open>JSON.parse\<close> keeps the last one.
\<close>

datatype json =
    JNull
  | JBool bool
  | JNum real
  | JStr string
  | JArr "json list"
  | JObj "(string \<times> json) list"

text \<open>
  What a \<^verbatim>\<open>throw\<close> carries. \<open>JsError v\<close> is \<^verbatim>\<open>new Error(v)\<close>: the error's message is
  the string conversion of \<open>v\<close>, which for a string \<open>JStr s\<close> is \<open>s\<close> itself.
\<close>

datatype exn =
    JsError json
  | TypeError
  | SyntaxError
  | URIError
  | InvalidCharacterError

fun truthy_json :: "json \<Rightarrow> bool" where
  "truthy_json JNull = False"
| "truthy_json (JBool b) = b"
| "truthy_json (JNum n) = (n \<noteq> 0)"
| "truthy_json (JStr s) = (s \<noteq> [])"
| "truthy_json (JArr xs) = True"
| "truthy_json (JObj kvs) = True"

definition truthy :: "json option \<Rightarrow> bool" where
  "truthy v = (case v of None \<Rightarrow> False | Some j \<Rightarrow> truthy_json j)"

text \<open>
  \<open>own_prop k v\<close> is \<^verbatim>\<open>v.k\<close> for a value \<open>v\<close> that is neither \<^verbatim>\<open>null\<close> nor \<^verbatim>\<open>undefined\<close> and a key
  \<open>k\<close> that no prototype defines (the code reads \<^verbatim>\<open>detail\<close>, \<^verbatim>\<open>message\<close> and \<^verbatim>\<open>msg\<close>):
  only an object has such a member. \<open>index0 v\<close> is \<^verbatim>\<open>v[0]\<close>.
\<close>

fun own_prop :: "string \<Rightarrow> json \<Rightarrow> json option" where
  "own_prop k (JObj kvs) = map_of (rev kvs) k"
| "own_prop k v = None"

fun index0 :: "json \<Rightarrow> json option" where
  "index0 (JArr xs) = (case xs of [] \<Rightarrow> None | x # rest \<Rightarrow> Some x)"
| "index0 (JObj kvs) = map_of (rev kvs) ''0''"
| "index0 (JStr s) = (case s of [] \<Rightarrow> None | c # rest \<Rightarrow> Some (JStr [c]))"
| "index0 v = None"

text \<open>Optional chaining \<^verbatim>\<open>v?.p\<close>, and plain member access, which throws on a nullish value.\<close>

definition opt_chain :: "(json \<Rightarrow> json option) \<Rightarrow> json option \<Rightarrow> json option" where
  "opt_chain f v = (case v of None \<Rightarrow> None | Some JNull \<Rightarrow> None | Some j \<Rightarrow> f j)"

definition member :: "(json \<Rightarrow> json option) \<Rightarrow> json option \<Rightarrow> exn + json option" where
  "member f v = (case v of None \<Rightarrow> Inl TypeError | Some JNull \<Rightarrow> Inl TypeError | Some j \<Rightarrow> Inr (f j))"

text \<open>Decimal rendering of a natural number, as a template literal prints a status code.\<close>

definition digit :: "nat \<Rightarrow> char" where
  "digit d = char_of (of_char CHR ''0'' + d)"

fun dec :: "nat \<Rightarrow> string" where
  "dec n = (if n < 10 then [digit n] else dec (n div 10) @ [digit (n mod 10)])"

declare dec.simps [simp del]

section \<open>Backend gateway: error normalisation (lib/api)\<close>

text \<open>
  A \<^verbatim>\<open>Response\<close> as the gateway reads it: \<^verbatim>\<open>res.status\<close> and the outcome of \<^verbatim>\<open>res.json()\<close>,
  which rejects when the body is not JSON. \<^verbatim>\<open>res.ok\<close> is true for the statuses 200 to 299.
\<close>

record response =
  http_status :: nat
  body :: "exn + json"

definition ok :: "response \<Rightarrow> bool" where
  "ok res = (200 \<le> http_status res \<and> http_status res \<le> 299)"

definition buildFetchErrorHint :: "string \<Rightarrow> string" where
  "buildFetchErrorHint url =
     (let base = ''Network error calling '' @ url @ ''.'';
          hint = '' Check VITE_API_URL, backend is running, CORS allows this origin, and avoid HTTPS->HTTP mixed content (use https backend or a tunnel like ngrok).''
      in base @ hint)"

text \<open>
  The message computed on the \<^verbatim>\<open>!res.ok\<close> path of \<^verbatim>\<open>requestJson\<close> and \<^verbatim>\<open>requestFormData\<close>
  (the two bodies are the same text): the value handed to \<^verbatim>\<open>new Error\<close>.
\<close>

definition request_failed_message :: "response \<Rightarrow> json" where
  "request_failed_message res =
     (let message = JStr (''Request failed ('' @ dec (http_status res) @ '')'') in
      case body res of
        Inl e \<Rightarrow> message
      | Inr b \<Rightarrow>
          (let detail = opt_chain (own_prop ''detail'') (Some b) in
           if truthy detail then
             (case detail of
                Some (JStr s) \<Rightarrow> JStr s
              | _ \<Rightarrow>
                  (case opt_chain (own_prop ''msg'') (opt_chain index0 detail) of
                     None \<Rightarrow> message
                   | Some JNull \<Rightarrow> message
                   | Some m \<Rightarrow> m))
           else
             (case opt_chain (own_prop ''message'') (Some b) of
                None \<Rightarrow> message
              | Some m \<Rightarrow> if truthy_json m then m else message)))"

text \<open>
  \<^verbatim>\<open>requestJson(url, init)\<close> once \<^verbatim>\<open>fetch\<close> has settled: \<open>Inl e\<close> when \<^verbatim>\<open>fetch\<close> rejected with \<open>e\<close>
  (a \<^verbatim>\<open>TypeError\<close> on a network failure), \<open>Inr res\<close> when it resolved. The outer \<^verbatim>\<open>catch\<close>
  replaces a \<^verbatim>\<open>TypeError\<close> by the network hint and rethrows everything else. (The hint's
  arrow between HTTPS and HTTP is written in ASCII here.)
\<close>

definition requestJson :: "string \<Rightarrow> exn + response \<Rightarrow> exn + json" where
  "requestJson url fetched =
     (let attempt =
        (case fetched of
           Inl e \<Rightarrow> Inl e
         | Inr res \<Rightarrow>
             if \<not> ok res then Inl (JsError (request_failed_message res)) else body res)
      in case attempt of
           Inl TypeError \<Rightarrow> Inl (JsError (JStr (buildFetchErrorHint url)))
         | Inl e \<Rightarrow> Inl e
         | Inr v \<Rightarrow> Inr v)"

text \<open>
  \<^verbatim>\<open>handleApiError(res, fallbackMessage)\<close> of the gateway's other revision. Reading
  \<^verbatim>\<open>errorData.detail\<close> throws when the body is \<^verbatim>\<open>null\<close>; the \<^verbatim>\<open>catch\<close> keeps the fallback.
\<close>

definition handleApiError :: "response \<Rightarrow> string \<Rightarrow> exn + json" where
  "handleApiError res fallbackMessage =
     (if \<not> ok res then
        (let errorMessage =
           (case body res of
              Inl e \<Rightarrow> JStr fallbackMessage
            | Inr errorData \<Rightarrow>
                (case member (own_prop ''detail'') (Some errorData) of
                   Inl e \<Rightarrow> JStr fallbackMessage
                 | Inr detail \<Rightarrow>
                     if truthy detail then
                       (case detail of
                          Some (JStr s) \<Rightarrow> JStr s
                        | _ \<Rightarrow>
                            (case opt_chain (own_prop ''msg'') (opt_chain index0 detail) of
                               None \<Rightarrow> JStr fallbackMessage
                             | Some m \<Rightarrow> if truthy_json m then m else JStr fallbackMessage))
                     else JStr fallbackMessage))
         in Inl (JsError errorMessage))
      else body res)"

section \<open>Session store (lib/api, auth)\<close>

text \<open>
  \<^verbatim>\<open>localStorage\<close> is a finite map from keys to strings. \<^verbatim>\<open>JSON.stringify\<close> and \<^verbatim>\<open>JSON.parse\<close>
  are the platform's; the store takes them as parameters. A storage that refuses to
  write (quota) is not modelled.
\<close>

type_synonym storage = "string \<rightharpoonup> string"

definition getItem :: "string \<Rightarrow> storage \<Rightarrow> string option" where
  "getItem k s = s k"

definition setItem :: "string \<Rightarrow> string \<Rightarrow> storage \<Rightarrow> storage" where
  "setItem k v s = s(k \<mapsto> v)"

definition removeItem :: "string \<Rightarrow> storage \<Rightarrow> storage" where
  "removeItem k s = s(k := None)"

definition isAuthenticated :: "storage \<Rightarrow> bool" where
  "isAuthenticated s = (case getItem ''access_token'' s of None \<Rightarrow> False | Some t \<Rightarrow> t \<noteq> [])"

definition getToken :: "storage \<Rightarrow> string option" where
  "getToken s = getItem ''access_token'' s"

definition getUser :: "(string \<Rightarrow> exn + json) \<Rightarrow> storage \<Rightarrow> exn + json" where
  "getUser JSON_parse s =
     (case getItem ''user'' s of
        None \<Rightarrow> Inr JNull
      | Some user \<Rightarrow> if user \<noteq> [] then JSON_parse user else Inr JNull)"

definition setAuth :: "('u \<Rightarrow> string) \<Rightarrow> string \<Rightarrow> 'u \<Rightarrow> storage \<Rightarrow> storage" where
  "setAuth JSON_stringify token user s =
     setItem ''user'' (JSON_stringify user) (setItem ''access_token'' token s)"

definition logout :: "storage \<Rightarrow> storage" where
  "logout s = removeItem ''user'' (removeItem ''access_token'' s)"

section \<open>Token payload decoding (lib/api, decodeJWT)\<close>

text \<open>
  \<^verbatim>\<open>String.prototype.split\<close> with a one-character separator: the pieces between the
  separators, one piece for a string without it. A string is a list of Isabelle
  characters, which stand for the code units.
\<close>

fun split_at :: "char \<Rightarrow> string \<Rightarrow> string list" where
  "split_at sep [] = [[]]"
| "split_at sep (c # cs) =
     (if c = sep then [] # split_at sep cs
      else (case split_at sep cs of p # ps \<Rightarrow> (c # p) # ps | [] \<Rightarrow> [[c]]))"

definition at_index :: "'a list \<Rightarrow> nat \<Rightarrow> 'a option" where
  "at_index xs i = (if i < length xs then Some (xs ! i) else None)"

definition replace_char :: "char \<Rightarrow> char \<Rightarrow> string \<Rightarrow> string" where
  "replace_char a b s = map (\<lambda>c. if c = a then b else c) s"

definition hex_digit :: "nat \<Rightarrow> char" where
  "hex_digit d = (if d < 10 then digit d else char_of (of_char CHR ''a'' + (d - 10)))"

text \<open>\<^verbatim>\<open>'%' + ('00' + c.charCodeAt(0).toString(16)).slice(-2)\<close> for a character below 256.\<close>

definition percent_hex :: "char \<Rightarrow> string" where
  "percent_hex c = CHR ''%'' # [hex_digit (of_char c div 16), hex_digit (of_char c mod 16)]"

text \<open>
  The body of the \<^verbatim>\<open>try\<close> block. \<^verbatim>\<open>atob\<close>, \<^verbatim>\<open>decodeURIComponent\<close> and \<^verbatim>\<open>JSON.parse\<close> are the
  platform's and may throw; calling \<^verbatim>\<open>replace\<close> on the \<^verbatim>\<open>undefined\<close> that a token without a
  second segment yields throws a \<^verbatim>\<open>TypeError\<close>.
\<close>

definition decodeJWT_try ::
  "(string \<Rightarrow> exn + string) \<Rightarrow> (string \<Rightarrow> exn + string) \<Rightarrow> (string \<Rightarrow> exn + json) \<Rightarrow>
   string \<Rightarrow> exn + json" where
  "decodeJWT_try atob decodeURIComponent JSON_parse token =
     (case at_index (split_at CHR ''.'' token) 1 of
        None \<Rightarrow> Inl TypeError
      | Some base64Url \<Rightarrow>
          (let base64 = replace_char CHR ''_'' CHR ''/'' (replace_char CHR ''-'' CHR ''+'' base64Url) in
           case atob base64 of
             Inl e \<Rightarrow> Inl e
           | Inr bin \<Rightarrow>
               (case decodeURIComponent (concat (map percent_hex bin)) of
                  Inl e \<Rightarrow> Inl e
                | Inr jsonPayload \<Rightarrow> JSON_parse jsonPayload)))"

definition decodeJWT ::
  "(string \<Rightarrow> exn + string) \<Rightarrow> (string \<Rightarrow> exn + string) \<Rightarrow> (string \<Rightarrow> exn + json) \<Rightarrow>
   string \<Rightarrow> exn + json" where
  "decodeJWT atob decodeURIComponent JSON_parse token =
     (case decodeJWT_try atob decodeURIComponent JSON_parse token of
        Inl e \<Rightarrow> Inr JNull
      | Inr payload \<Rightarrow> Inr payload)"

section \<open>Camera capture, shared by the two capture screens\<close>

text \<open>
  A \<^verbatim>\<open>MediaStream\<close> is the list of its hardware tracks (\<^verbatim>\<open>getTracks()\<close>); the hardware
  records which tracks are still capturing. A video element shows a stream and has a
  current frame; a canvas has a size and the frame last painted on it, together with
  whether it was painted mirrored. Assigning a canvas dimension clears the bitmap.
\<close>

type_synonym track = nat

type_synonym MediaStream = "track list"

record HTMLVideoElement =
  srcObject :: "MediaStream option"
  readyState :: nat
  videoWidth :: nat
  videoHeight :: nat
  frame :: nat

record HTMLCanvasElement =
  width :: nat
  height :: nat
  has_context :: bool
  painted :: "(nat \<times> bool) option"

text \<open>
  The result of \<^verbatim>\<open>toDataURL(type, quality)\<close> or \<^verbatim>\<open>toBlob(cb, type, quality)\<close>: the format
  asked for, the quality asked for (\<open>None\<close> when the call leaves it to the platform) and
  the bitmap that was encoded.
\<close>

record encoded =
  mime :: string
  quality :: "real option"
  pixels :: HTMLCanvasElement

definition encode :: "HTMLCanvasElement \<Rightarrow> string \<Rightarrow> real option \<Rightarrow> encoded" where
  "encode canvas type q = \<lparr>mime = type, quality = q, pixels = canvas\<rparr>"

record File =
  file_name :: string
  file_type :: string
  file_data :: encoded

datatype toast =
    toast_error string
  | toast_warning string
  | toast_success string

text \<open>
  The state both capture screens keep: the React state \<^verbatim>\<open>isCameraActive\<close>,
  \<^verbatim>\<open>isProcessing\<close> and \<^verbatim>\<open>capturedImage\<close>, the three refs, the hardware's live tracks, the
  number of \<^verbatim>\<open>getUserMedia\<close> requests not yet settled, and the toasts shown so far.
\<close>

record capture =
  isCameraActive :: bool
  isProcessing :: bool
  capturedImage :: "encoded option"
  streamRef :: "MediaStream option"
  videoRef :: "HTMLVideoElement option"
  canvasRef :: "HTMLCanvasElement option"
  live :: "track \<Rightarrow> bool"
  requesting :: nat
  toasts :: "toast list"

text \<open>\<^verbatim>\<open>stream.getTracks().forEach((t) => t.stop())\<close>.\<close>

definition stop_tracks :: "MediaStream \<Rightarrow> (track \<Rightarrow> bool) \<Rightarrow> (track \<Rightarrow> bool)" where
  "stop_tracks stream lv = fold (\<lambda>t l. l(t := False)) stream lv"

definition stopCamera :: "'a capture_scheme \<Rightarrow> 'a capture_scheme" where
  "stopCamera s =
     (let s1 = (case streamRef s of
                  Some stream \<Rightarrow> s\<lparr>live := stop_tracks stream (live s), streamRef := None\<rparr>
                | None \<Rightarrow> s);
          s2 = (case videoRef s1 of
                  Some video \<Rightarrow> s1\<lparr>videoRef := Some (video\<lparr>srcObject := None\<rparr>)\<rparr>
                | None \<Rightarrow> s1)
      in s2\<lparr>isCameraActive := False\<rparr>)"

text \<open>The effect cleanup that runs when the component unmounts.\<close>

definition unmount_cleanup :: "'a capture_scheme \<Rightarrow> 'a capture_scheme" where
  "unmount_cleanup s =
     (case streamRef s of
        Some stream \<Rightarrow> s\<lparr>live := stop_tracks stream (live s)\<rparr>
      | None \<Rightarrow> s)"

text \<open>What a state holds: the tracks of its stream, those of them still live, its video source.\<close>

definition held_tracks :: "'a capture_scheme \<Rightarrow> track list" where
  "held_tracks s = (case streamRef s of None \<Rightarrow> [] | Some stream \<Rightarrow> stream)"

definition active_among :: "'a capture_scheme \<Rightarrow> track list \<Rightarrow> track list" where
  "active_among s ts = filter (live s) ts"

definition video_source :: "'a capture_scheme \<Rightarrow> MediaStream option" where
  "video_source s = (case videoRef s of None \<Rightarrow> None | Some video \<Rightarrow> srcObject video)"

text \<open>
  \<^verbatim>\<open>canvas.width = video.videoWidth; canvas.height = video.videoHeight\<close>, and
  \<^verbatim>\<open>drawImage(video, 0, 0)\<close> on the context when there is one.
\<close>

definition size_to_video :: "HTMLVideoElement \<Rightarrow> HTMLCanvasElement \<Rightarrow> HTMLCanvasElement" where
  "size_to_video video canvas =
     canvas\<lparr>width := videoWidth video, height := videoHeight video, painted := None\<rparr>"

definition drawImage :: "HTMLVideoElement \<Rightarrow> bool \<Rightarrow> HTMLCanvasElement \<Rightarrow> HTMLCanvasElement" where
  "drawImage video flipped canvas = canvas\<lparr>painted := Some (frame video, flipped)\<rparr>"

text \<open>
  The elements as React mounts them: a \<^verbatim>\<open><video>\<close> without source and without data, a
  \<^verbatim>\<open><canvas>\<close> of the default size. A ref holds its element exactly while the JSX renders
  it. Of a mounted video that plays a stream the platform reports the progress: the
  ready state, the native size and the current frame; the source is set by the code only.
\<close>

definition fresh_video :: HTMLVideoElement where
  "fresh_video = \<lparr>srcObject = None, readyState = 0, videoWidth = 0, videoHeight = 0, frame = 0\<rparr>"

definition fresh_canvas :: HTMLCanvasElement where
  "fresh_canvas = \<lparr>width = 300, height = 150, has_context = True, painted = None\<rparr>"

definition media_progress ::
  "nat \<Rightarrow> nat \<Rightarrow> nat \<Rightarrow> nat \<Rightarrow> 'a capture_scheme \<Rightarrow> 'a capture_scheme" where
  "media_progress ready w h f s =
     (case videoRef s of
        None \<Rightarrow> s
      | Some video \<Rightarrow>
          if srcObject video = None then s
          else s\<lparr>videoRef := Some (video\<lparr>readyState := ready, videoWidth := w,
                                            videoHeight := h, frame := f\<rparr>)\<rparr>)"

section \<open>Mark attendance (pages/MarkAttendance)\<close>

record student_present =
  student_id :: int
  name :: "string option"
  roll_no :: "string option"
  confidence :: real

record DetectedStudent = student_present +
  status :: status

record AttendanceResult =
  result_status :: string
  count :: int
  students_present :: "student_present list option"

definition to_detected :: "student_present \<Rightarrow> DetectedStudent" where
  "to_detected s =
     \<lparr>student_id = student_id s, name = name s, roll_no = roll_no s,
      confidence = confidence s, status = status_of (confidence s)\<rparr>"

text \<open>
  The component's state. Besides the React state and the refs it holds what is pending
  of \<^verbatim>\<open>captureAndProcess\<close>, whose continuation runs in three asynchronous stages: waiting
  for the \<^verbatim>\<open>toBlob\<close> callback (with the subject the closure captured), waiting for the
  answer of \<^verbatim>\<open>api.markAttendance\<close>, and the reveal loop (the \<^verbatim>\<open>students\<close> array and the loop
  index \<^verbatim>\<open>i\<close>). Each stage is a queue, so that the model can hold several runs at once;
  that it never does is a theorem. \<open>requests\<close> logs every call made to the endpoint.
\<close>

record ma_state = capture +
  detectedStudents :: "DetectedStudent list"
  selectedSubject :: "int option"
  showSuccess :: bool
  error :: "string option"
  blob_pending :: "(int \<times> encoded) list"
  in_flight :: "(int \<times> File) list"
  revealing :: "(DetectedStudent list \<times> nat) list"
  requests :: "(int \<times> File) list"

text \<open>
  The state after the first render. The \<^verbatim>\<open><canvas>\<close> is always rendered; the \<^verbatim>\<open><video>\<close>
  is rendered in the branch \<^verbatim>\<open>isCameraActive ? ...\<close> only, so its ref starts empty.
\<close>

definition ma_init :: ma_state where
  "ma_init =
     \<lparr>isCameraActive = False, isProcessing = False, capturedImage = None, streamRef = None,
      videoRef = None, canvasRef = Some fresh_canvas, live = (\<lambda>t. False), requesting = 0,
      toasts = [],
      detectedStudents = [], selectedSubject = None, showSuccess = False, error = None,
      blob_pending = [], in_flight = [], revealing = [], requests = []\<rparr>"

text \<open>\<^verbatim>\<open>!selectedSubject\<close> is true for \<^verbatim>\<open>null\<close> and for the number 0.\<close>

definition subject_chosen :: "ma_state \<Rightarrow> int option" where
  "subject_chosen s =
     (case selectedSubject s of None \<Rightarrow> None | Some n \<Rightarrow> if n = 0 then None else Some n)"

text \<open>\<^verbatim>\<open>startCamera\<close> once \<^verbatim>\<open>getUserMedia\<close> has resolved with a stream, and once it has rejected.\<close>

definition ma_camera_granted :: "MediaStream \<Rightarrow> ma_state \<Rightarrow> ma_state" where
  "ma_camera_granted stream s =
     (let s0 = s\<lparr>requesting := requesting s - 1, live := (\<lambda>t. live s t \<or> t \<in> set stream)\<rparr> in
      case videoRef s0 of
        None \<Rightarrow> s0
      | Some video \<Rightarrow>
          s0\<lparr>videoRef := Some (video\<lparr>srcObject := Some stream\<rparr>), streamRef := Some stream,
             isCameraActive := True, capturedImage := None, detectedStudents := [],
             error := None\<rparr>)"

definition camera_denied :: "'a capture_scheme \<Rightarrow> 'a capture_scheme" where
  "camera_denied s =
     s\<lparr>requesting := requesting s - 1,
       toasts := toasts s @ [toast_error ''Camera access denied. Please allow camera permissions.'']\<rparr>"

text \<open>
  \<^verbatim>\<open>captureAndProcess\<close> up to the call of \<^verbatim>\<open>canvas.toBlob\<close>, which is where the click
  handler returns.
\<close>

definition captureAndProcess :: "ma_state \<Rightarrow> ma_state" where
  "captureAndProcess s =
     (case subject_chosen s of
        None \<Rightarrow> s\<lparr>toasts := toasts s @ [toast_error ''Select a subject first'']\<rparr>
      | Some subject \<Rightarrow>
          (case canvasRef s of
             None \<Rightarrow> s
           | Some canvas0 \<Rightarrow>
               (case videoRef s of
                  None \<Rightarrow> s
                | Some video \<Rightarrow>
                    if readyState video \<noteq> 4 then s
                    else
                      (let canvas1 = size_to_video video canvas0;
                           canvas = (if has_context canvas1 then drawImage video False canvas1
                                     else canvas1)
                       in s\<lparr>canvasRef := Some canvas,
                             capturedImage := Some (encode canvas ''image/jpeg'' (Some 0.9)),
                             isProcessing := True, detectedStudents := [], error := None,
                             blob_pending := blob_pending s @
                               [(subject, encode canvas ''image/jpeg'' (Some 0.9))]\<rparr>))))"

text \<open>
  The \<^verbatim>\<open>toBlob\<close> callback: \<open>blob_ok\<close> tells whether the platform produced a blob. A missing
  blob throws inside the \<^verbatim>\<open>try\<close>, which the \<^verbatim>\<open>catch\<close> turns into the error state; otherwise
  the frame is posted.
\<close>

definition ma_failed :: "string \<Rightarrow> ma_state \<Rightarrow> ma_state" where
  "ma_failed msg s =
     s\<lparr>error := Some msg, toasts := toasts s @ [toast_error msg], isProcessing := False\<rparr>"

definition blob_callback :: "bool \<Rightarrow> ma_state \<Rightarrow> ma_state" where
  "blob_callback blob_ok s =
     (case blob_pending s of
        [] \<Rightarrow> s
      | (subject, blob) # rest \<Rightarrow>
          if \<not> blob_ok then ma_failed ''Failed to capture image'' (s\<lparr>blob_pending := rest\<rparr>)
          else
            (let file = \<lparr>file_name = ''classroom.jpg'', file_type = ''image/jpeg'',
                         file_data = blob\<rparr>
             in s\<lparr>blob_pending := rest, in_flight := in_flight s @ [(subject, file)],
                   requests := requests s @ [(subject, file)]\<rparr>))"

text \<open>
  The continuation after \<^verbatim>\<open>await api.markAttendance(...)\<close>. The gateway rejects with an
  \<^verbatim>\<open>Error\<close> carrying a message (\<open>Inl (Some msg)\<close>), or with something that is no \<^verbatim>\<open>Error\<close>
  (\<open>Inl None\<close>), or resolves with the result. With no student the handler returns from
  inside the \<^verbatim>\<open>try\<close>; otherwise the loop starts and suspends in its first \<^verbatim>\<open>await\<close>. A
  payload on which the mapping itself throws ends in the same \<^verbatim>\<open>catch\<close> as a rejection
  with that error's message.
\<close>

definition mark_response :: "string option + AttendanceResult \<Rightarrow> ma_state \<Rightarrow> ma_state" where
  "mark_response answer s =
     (case in_flight s of
        [] \<Rightarrow> s
      | call # rest \<Rightarrow>
          (let s0 = s\<lparr>in_flight := rest\<rparr> in
           case answer of
             Inl err \<Rightarrow>
               ma_failed (case err of Some msg \<Rightarrow> msg | None \<Rightarrow> ''Failed to mark attendance'') s0
           | Inr result \<Rightarrow>
               (let students =
                      map to_detected
                        (case students_present result of None \<Rightarrow> [] | Some present \<Rightarrow> present)
                in if length students = 0 then
                     s0\<lparr>error := Some ''No students detected in the image'',
                        toasts := toasts s0 @
                          [toast_warning ''No students detected. Try again with better lighting.''],
                        isProcessing := False\<rparr>
                   else s0\<lparr>revealing := revealing s0 @ [(students, 0)]\<rparr>)))"

text \<open>
  One turn of the reveal loop, when its 150 ms timer fires: append \<^verbatim>\<open>students[i]\<close>,
  increment \<^verbatim>\<open>i\<close>, and either suspend again or leave the loop, show the success card and
  run the \<^verbatim>\<open>finally\<close> block.
\<close>

definition reveal_tick :: "ma_state \<Rightarrow> ma_state" where
  "reveal_tick s =
     (case revealing s of
        [] \<Rightarrow> s
      | (students, i) # rest \<Rightarrow>
          (let s1 = s\<lparr>detectedStudents := detectedStudents s @ [students ! i]\<rparr> in
           if Suc i < length students then s1\<lparr>revealing := (students, Suc i) # rest\<rparr>
           else s1\<lparr>revealing := rest, showSuccess := True, isProcessing := False\<rparr>))"

text \<open>
  What the user and the platform can do to the component. The buttons follow the JSX:
  \<^verbatim>\<open>Start Camera\<close> is rendered while the camera is off, \<^verbatim>\<open>Stop Camera\<close> and
  \<^verbatim>\<open>Capture & Mark\<close> while it is on, and \<^verbatim>\<open>Capture & Mark\<close> is disabled while
  \<^verbatim>\<open>isProcessing\<close>. So does the video: the JSX renders \<^verbatim>\<open><video ref={videoRef}>\<close> only while
  \<^verbatim>\<open>isCameraActive\<close>, hence the render that follows \<^verbatim>\<open>stopCamera\<close> unmounts it and empties
  the ref, and nothing but \<^verbatim>\<open>setIsCameraActive(true)\<close> mounts it. The subject list is not
  modelled: any subject may be selected at any time, and \<^verbatim>\<open>Start Camera\<close>, which the JSX
  disables while the list is empty, is always enabled; both only add behaviours.
\<close>

datatype ma_event =
    ClickStartCamera
  | CameraGranted MediaStream
  | CameraDenied
  | ClickStopCamera
  | ClickCapture
  | SelectSubject int
  | BlobReady bool
  | MarkResponse "string option + AttendanceResult"
  | RevealTimer
  | SuccessTimeout
  | VideoProgress nat nat nat nat

fun ma_step :: "ma_event \<Rightarrow> ma_state \<Rightarrow> ma_state" where
  "ma_step ClickStartCamera s =
     (if \<not> isCameraActive s then s\<lparr>requesting := Suc (requesting s)\<rparr> else s)"
| "ma_step (CameraGranted stream) s = (if requesting s = 0 then s else ma_camera_granted stream s)"
| "ma_step CameraDenied s = (if requesting s = 0 then s else camera_denied s)"
| "ma_step ClickStopCamera s =
     (if isCameraActive s then (stopCamera s)\<lparr>videoRef := None\<rparr> else s)"
| "ma_step ClickCapture s =
     (if isCameraActive s \<and> \<not> isProcessing s then captureAndProcess s else s)"
| "ma_step (SelectSubject n) s = s\<lparr>selectedSubject := Some n\<rparr>"
| "ma_step (BlobReady blob_ok) s = blob_callback blob_ok s"
| "ma_step (MarkResponse answer) s = mark_response answer s"
| "ma_step RevealTimer s = reveal_tick s"
| "ma_step SuccessTimeout s = s\<lparr>showSuccess := False\<rparr>"
| "ma_step (VideoProgress ready w h f) s = media_progress ready w h f s"

fun ma_run :: "ma_event list \<Rightarrow> ma_state \<Rightarrow> ma_state" where
  "ma_run [] s = s"
| "ma_run (e # es) s = ma_run es (ma_step e s)"


text \<open>At most one run of \<^verbatim>\<open>captureAndProcess\<close> is pending, and then \<^verbatim>\<open>isProcessing\<close> is set.\<close>

definition pending_runs :: "ma_state \<Rightarrow> nat" where
  "pending_runs s = length (blob_pending s) + length (in_flight s) + length (revealing s)"

definition single_run :: "ma_state \<Rightarrow> bool" where
  "single_run s = (pending_runs s = 0 \<or> (pending_runs s = 1 \<and> isProcessing s))"

text \<open>
  The invariant behind it: moreover nothing is disclosed while a run waits for its blob
  or for the answer.
\<close>

definition ma_inv :: "ma_state \<Rightarrow> bool" where
  "ma_inv s =
     (single_run s \<and> ((blob_pending s = [] \<and> in_flight s = []) \<or> detectedStudents s = []))"

text \<open>
  The page with the camera off and nothing done yet: no video mounted, no stream kept,
  no run of \<^verbatim>\<open>captureAndProcess\<close> started, nothing disclosed, no banner, and no toast
  other than the one for a refused camera.
\<close>

definition camera_denied_toast :: "toast \<Rightarrow> bool" where
  "camera_denied_toast t = (t = toast_error ''Camera access denied. Please allow camera permissions.'')"

definition never_started :: "ma_state \<Rightarrow> bool" where
  "never_started s =
     (\<not> isCameraActive s \<and> videoRef s = None \<and> streamRef s = None \<and> \<not> isProcessing s \<and>
      capturedImage s = None \<and> detectedStudents s = [] \<and> \<not> showSuccess s \<and> error s = None \<and>
      blob_pending s = [] \<and> in_flight s = [] \<and> revealing s = [] \<and> requests s = [] \<and>
      list_all camera_denied_toast (toasts s))"

section \<open>Student enrolment (pages/StudentTraining)\<close>

text \<open>The form; its fields carry the prefix \<open>form_\<close> here, \<^verbatim>\<open>name\<close> and \<^verbatim>\<open>roll_no\<close> being taken.\<close>

record TrainingForm =
  form_name :: string
  form_roll_no :: string
  form_year :: string
  form_branch :: string
  form_section :: string

text \<open>
  The enrolment screen's state: the shared capture state, the captured file, the
  success flag and the form, and what is pending: \<^verbatim>\<open>toBlob\<close> callbacks (with the roll
  number their closure captured), files being read for the preview, calls of
  \<^verbatim>\<open>api.registerStudent\<close> not yet answered, and reset timers set after a success.
  \<open>registrations\<close> logs every call made to the endpoint. The bulk import tab has its own
  state and handlers and is left out.
\<close>

record st_state = capture +
  capturedFile :: "File option"
  registrationSuccess :: bool
  form :: TrainingForm
  photo_pending :: "(string \<times> encoded) list"
  reads_pending :: "File list"
  registering :: "(TrainingForm \<times> File) list"
  registrations :: "(TrainingForm \<times> File) list"
  reset_timers :: nat

definition blank_form :: TrainingForm where
  "blank_form =
     \<lparr>form_name = [], form_roll_no = [], form_year = [], form_branch = [], form_section = []\<rparr>"

text \<open>
  The state after the first render. Here the JSX renders the \<^verbatim>\<open><video>\<close> whenever there is no
  preview (\<^verbatim>\<open>capturedImage ? <img> : <video ref={videoRef}>\<close>, hidden by a class while the
  camera is off), so its ref is filled from the start; the \<^verbatim>\<open><canvas>\<close> is always rendered.
\<close>

definition st_init :: st_state where
  "st_init =
     \<lparr>isCameraActive = False, isProcessing = False, capturedImage = None, streamRef = None,
      videoRef = Some fresh_video, canvasRef = Some fresh_canvas, live = (\<lambda>t. False),
      requesting = 0, toasts = [],
      capturedFile = None, registrationSuccess = False, form = blank_form,
      photo_pending = [], reads_pending = [], registering = [], registrations = [],
      reset_timers = 0\<rparr>"

definition st_camera_granted :: "MediaStream \<Rightarrow> st_state \<Rightarrow> st_state" where
  "st_camera_granted stream s =
     (let s0 = s\<lparr>requesting := requesting s - 1, live := (\<lambda>t. live s t \<or> t \<in> set stream)\<rparr> in
      case videoRef s0 of
        None \<Rightarrow> s0
      | Some video \<Rightarrow>
          s0\<lparr>videoRef := Some (video\<lparr>srcObject := Some stream\<rparr>), streamRef := Some stream,
             isCameraActive := True, capturedImage := None, capturedFile := None\<rparr>)"

text \<open>
  \<^verbatim>\<open>capturePhoto\<close> up to the call of \<^verbatim>\<open>canvas.toBlob\<close>. The frame is painted mirrored
  (\<^verbatim>\<open>translate\<close>, \<^verbatim>\<open>scale(-1, 1)\<close>); without a 2d context the handler returns after sizing
  the canvas.
\<close>

definition capturePhoto :: "st_state \<Rightarrow> st_state" where
  "capturePhoto s =
     (case canvasRef s of
        None \<Rightarrow> s
      | Some canvas0 \<Rightarrow>
          (case videoRef s of
             None \<Rightarrow> s
           | Some video \<Rightarrow>
               if readyState video \<noteq> 4 then
                 s\<lparr>toasts := toasts s @ [toast_error ''Camera not ready yet. Please wait a moment.'']\<rparr>
               else
                 (let canvas1 = size_to_video video canvas0 in
                  if \<not> has_context canvas1 then s\<lparr>canvasRef := Some canvas1\<rparr>
                  else
                    (let canvas = drawImage video True canvas1 in
                     s\<lparr>canvasRef := Some canvas,
                       photo_pending := photo_pending s @
                         [(form_roll_no (form s), encode canvas ''image/jpeg'' (Some 0.9))]\<rparr>))))"

text \<open>
  The \<^verbatim>\<open>toBlob\<close> callback of \<^verbatim>\<open>capturePhoto\<close>: without a blob it returns; with one it stores
  the file, takes the preview from the canvas (\<^verbatim>\<open>toDataURL('image/jpeg')\<close>, the quality left
  to the platform) and stops the camera.
\<close>

definition photo_callback :: "bool \<Rightarrow> st_state \<Rightarrow> st_state" where
  "photo_callback blob_ok s =
     (case photo_pending s of
        [] \<Rightarrow> s
      | (roll, blob) # rest \<Rightarrow>
          (let s0 = s\<lparr>photo_pending := rest\<rparr> in
           if \<not> blob_ok then s0
           else
             (let file = \<lparr>file_name = ''student_'' @ (if roll = [] then ''face'' else roll) @ ''.jpg'',
                          file_type = ''image/jpeg'', file_data = blob\<rparr>;
                  canvas = (case canvasRef s0 of Some c \<Rightarrow> c | None \<Rightarrow> pixels blob)
              in stopCamera
                   (s0\<lparr>capturedFile := Some file,
                       capturedImage := Some (encode canvas ''image/jpeg'' None)\<rparr>))))"

text \<open>
  \<^verbatim>\<open>handleFileUpload\<close> with the file the input holds, if any, and the \<^verbatim>\<open>onload\<close> handler of
  its reader, which sets the preview; \<^verbatim>\<open>resetCapture\<close>.
\<close>

definition handleFileUpload :: "File option \<Rightarrow> st_state \<Rightarrow> st_state" where
  "handleFileUpload chosen s =
     (case chosen of
        None \<Rightarrow> s
      | Some file \<Rightarrow>
          stopCamera (s\<lparr>capturedFile := Some file, reads_pending := reads_pending s @ [file]\<rparr>))"

definition reader_loaded :: "st_state \<Rightarrow> st_state" where
  "reader_loaded s =
     (case reads_pending s of
        [] \<Rightarrow> s
      | file # rest \<Rightarrow> s\<lparr>reads_pending := rest, capturedImage := Some (file_data file)\<rparr>)"

definition resetCapture :: "st_state \<Rightarrow> st_state" where
  "resetCapture s = s\<lparr>capturedImage := None, capturedFile := None\<rparr>"

text \<open>
  \<^verbatim>\<open>isFormValid\<close>: every field has a character that \<^verbatim>\<open>trim()\<close> keeps, and a file is held.
\<close>

definition is_white :: "char \<Rightarrow> bool" where
  "is_white c = (of_char c \<in> {9, 10, 11, 12, 13, 32, 160 :: nat})"

definition trimmed_empty :: "string \<Rightarrow> bool" where
  "trimmed_empty s = list_all is_white s"

definition isFormValid :: "st_state \<Rightarrow> bool" where
  "isFormValid s =
     (\<not> trimmed_empty (form_name (form s)) \<and>
      \<not> trimmed_empty (form_roll_no (form s)) \<and>
      \<not> trimmed_empty (form_year (form s)) \<and>
      \<not> trimmed_empty (form_branch (form s)) \<and>
      \<not> trimmed_empty (form_section (form s)) \<and>
      capturedFile s \<noteq> None)"

text \<open>\<^verbatim>\<open>submit\<close> up to its \<^verbatim>\<open>await\<close>: the guards, then the call of \<^verbatim>\<open>api.registerStudent\<close>.\<close>

definition submit :: "st_state \<Rightarrow> st_state" where
  "submit s =
     (case capturedFile s of
        None \<Rightarrow> s
      | Some file \<Rightarrow>
          if \<not> isFormValid s then
            s\<lparr>toasts := toasts s @
                 [toast_error ''Please fill all fields and capture/upload a photo.'']\<rparr>
          else
            s\<lparr>isProcessing := True,
              registering := registering s @ [(form s, file)],
              registrations := registrations s @ [(form s, file)]\<rparr>)"

text \<open>
  Submitting the form: the submit button is rendered unless \<^verbatim>\<open>registrationSuccess\<close>, and is
  disabled unless the form is valid and nothing is processing; a form whose submit
  button is missing or disabled is not submitted.
\<close>

definition submit_form :: "st_state \<Rightarrow> st_state" where
  "submit_form s =
     (if \<not> registrationSuccess s \<and> \<not> (\<not> isFormValid s \<or> isProcessing s) then submit s else s)"

text \<open>
  The continuation of \<^verbatim>\<open>submit\<close> after its \<^verbatim>\<open>await\<close>, with the gateway's answer as on the
  attendance screen, and the timer that clears the form 2.5 s after a success.
\<close>

definition register_response :: "string option + unit \<Rightarrow> st_state \<Rightarrow> st_state" where
  "register_response answer s =
     (case registering s of
        [] \<Rightarrow> s
      | call # rest \<Rightarrow>
          (let s0 = s\<lparr>registering := rest\<rparr> in
           case answer of
             Inl err \<Rightarrow>
               s0\<lparr>toasts := toasts s0 @
                     [toast_error (case err of Some msg \<Rightarrow> msg
                                   | None \<Rightarrow> ''Failed to register student'')],
                  isProcessing := False\<rparr>
           | Inr done \<Rightarrow>
               s0\<lparr>registrationSuccess := True,
                  toasts := toasts s0 @
                    [toast_success ''Student registered and face embedding saved.''],
                  reset_timers := Suc (reset_timers s0),
                  isProcessing := False\<rparr>))"

definition reset_timeout :: "st_state \<Rightarrow> st_state" where
  "reset_timeout s =
     (if reset_timers s = 0 then s
      else (resetCapture (s\<lparr>form := blank_form, reset_timers := reset_timers s - 1\<rparr>))
             \<lparr>registrationSuccess := False\<rparr>)"

text \<open>
  The render after a change of \<^verbatim>\<open>capturedImage\<close>: with a preview the \<^verbatim>\<open><video>\<close> is unmounted
  and its ref emptied; without one it is mounted, a fresh element if there was none.
\<close>

definition st_render :: "st_state \<Rightarrow> st_state" where
  "st_render s =
     (case capturedImage s of
        Some preview \<Rightarrow> s\<lparr>videoRef := None\<rparr>
      | None \<Rightarrow> (case videoRef s of None \<Rightarrow> s\<lparr>videoRef := Some fresh_video\<rparr> | Some video \<Rightarrow> s))"

text \<open>
  What the user and the platform can do to the enrolment tab. Buttons as the JSX renders
  them: without a preview, \<^verbatim>\<open>Start Camera\<close> and \<^verbatim>\<open>Upload Photo\<close> while the camera is off and
  \<^verbatim>\<open>Stop\<close> and \<^verbatim>\<open>Capture Photo\<close> while it is on; with a preview, \<^verbatim>\<open>Retake\<close>. The steps
  that may change \<^verbatim>\<open>capturedImage\<close> are followed by the render.
\<close>

datatype st_event =
    StClickStartCamera
  | StCameraGranted MediaStream
  | StCameraDenied
  | StClickStop
  | StClickCapture
  | PhotoReady bool
  | StUpload "File option"
  | ReaderLoaded
  | StClickRetake
  | StEditForm TrainingForm
  | StSubmit
  | RegisterResponse "string option + unit"
  | ResetTimeout
  | StVideoProgress nat nat nat nat

fun st_step :: "st_event \<Rightarrow> st_state \<Rightarrow> st_state" where
  "st_step StClickStartCamera s =
     (if capturedImage s = None \<and> \<not> isCameraActive s then s\<lparr>requesting := Suc (requesting s)\<rparr>
      else s)"
| "st_step (StCameraGranted stream) s =
     (if requesting s = 0 then s else st_camera_granted stream s)"
| "st_step StCameraDenied s = (if requesting s = 0 then s else camera_denied s)"
| "st_step StClickStop s =
     (if capturedImage s = None \<and> isCameraActive s then stopCamera s else s)"
| "st_step StClickCapture s =
     (if capturedImage s = None \<and> isCameraActive s then capturePhoto s else s)"
| "st_step (PhotoReady blob_ok) s = st_render (photo_callback blob_ok s)"
| "st_step (StUpload chosen) s =
     (if capturedImage s = None \<and> \<not> isCameraActive s then handleFileUpload chosen s else s)"
| "st_step ReaderLoaded s = st_render (reader_loaded s)"
| "st_step StClickRetake s = (if capturedImage s \<noteq> None then st_render (resetCapture s) else s)"
| "st_step (StEditForm f) s = s\<lparr>form := f\<rparr>"
| "st_step StSubmit s = submit_form s"
| "st_step (RegisterResponse answer) s = register_response answer s"
| "st_step ResetTimeout s = st_render (reset_timeout s)"
| "st_step (StVideoProgress ready w h f) s = media_progress ready w h f s"

fun st_run :: "st_event list \<Rightarrow> st_state \<Rightarrow> st_state" where
  "st_run [] s = s"
| "st_run (e # es) s = st_run es (st_step e s)"

text \<open>At most one registration is awaiting its answer, and then \<^verbatim>\<open>isProcessing\<close> is set.\<close>

definition st_inv :: "st_state \<Rightarrow> bool" where
  "st_inv s = (registering s = [] \<or> (length (registering s) = 1 \<and> isProcessing s))"

section \<open>Theorems\<close>

subsection \<open>Confidence tiers\<close>


subsection \<open>Gateway error normalisation\<close>

lemma opt_chain_own_prop: "opt_chain (own_prop k) (Some b) = own_prop k b"
  by (cases b) (simp_all add: opt_chain_def)

lemma opt_chain_Some_JArr: "opt_chain f (Some (JArr xs)) = f (JArr xs)"
  by (simp add: opt_chain_def)

lemma member_own_prop_Inr: "own_prop k b = Some v \<Longrightarrow> member (own_prop k) (Some b) = Inr (Some v)"
  by (cases b) (simp_all add: member_def)

lemma member_cases:
  "member (own_prop k) (Some b) = Inl TypeError \<or> member (own_prop k) (Some b) = Inr (own_prop k b)"
  by (cases b) (simp_all add: member_def)

lemma not_ok_requestJson:
  "\<not> ok res \<Longrightarrow> requestJson url (Inr res) = Inl (JsError (request_failed_message res))"
  by (simp add: requestJson_def)

lemma not_ok_handleApiError:
  "\<not> ok res \<Longrightarrow> \<exists>m. handleApiError res fallbackMessage = Inl (JsError m)"
  by (simp add: handleApiError_def Let_def)

lemma request_failed_string_detail:
  "body res = Inr b \<Longrightarrow> own_prop ''detail'' b = Some (JStr x) \<Longrightarrow> x \<noteq> [] \<Longrightarrow>
     request_failed_message res = JStr x"
  by (simp add: request_failed_message_def opt_chain_own_prop truthy_def)

lemma handle_string_detail:
  "\<not> ok res \<Longrightarrow> body res = Inr b \<Longrightarrow> own_prop ''detail'' b = Some (JStr x) \<Longrightarrow> x \<noteq> [] \<Longrightarrow>
     handleApiError res fallbackMessage = Inl (JsError (JStr x))"
  by (simp add: handleApiError_def member_own_prop_Inr truthy_def)

lemma request_failed_array_detail:
  "body res = Inr b \<Longrightarrow> own_prop ''detail'' b = Some (JArr (entry # entries)) \<Longrightarrow>
   own_prop ''msg'' entry = Some (JStr msg) \<Longrightarrow> request_failed_message res = JStr msg"
  by (simp add: request_failed_message_def opt_chain_own_prop opt_chain_Some_JArr truthy_def)

lemma handle_array_detail:
  "\<not> ok res \<Longrightarrow> body res = Inr b \<Longrightarrow> own_prop ''detail'' b = Some (JArr (entry # entries)) \<Longrightarrow>
   own_prop ''msg'' entry = Some (JStr msg) \<Longrightarrow> msg \<noteq> [] \<Longrightarrow>
     handleApiError res fallbackMessage = Inl (JsError (JStr msg))"
  by (simp add: handleApiError_def member_own_prop_Inr opt_chain_own_prop opt_chain_Some_JArr
      truthy_def)

lemma request_failed_message_field:
  "body res = Inr b \<Longrightarrow> \<not> truthy (own_prop ''detail'' b) \<Longrightarrow> own_prop ''message'' b = Some m \<Longrightarrow>
   truthy_json m \<Longrightarrow> request_failed_message res = m"
  by (simp add: request_failed_message_def opt_chain_own_prop)

lemma handle_no_detail:
  "\<not> ok res \<Longrightarrow> body res = Inr b \<Longrightarrow> \<not> truthy (own_prop ''detail'' b) \<Longrightarrow>
     handleApiError res fallbackMessage = Inl (JsError (JStr fallbackMessage))"
  using member_cases[of "''detail''" b]
  by (auto simp add: handleApiError_def)

lemma request_failed_generic:
  "body res = Inr b \<Longrightarrow> \<not> truthy (own_prop ''detail'' b) \<Longrightarrow> \<not> truthy (own_prop ''message'' b) \<Longrightarrow>
     request_failed_message res = JStr (''Request failed ('' @ dec (http_status res) @ '')'')"
  by (simp add: request_failed_message_def opt_chain_own_prop truthy_def split: option.splits)

lemma request_failed_unparseable:
  "body res = Inl e \<Longrightarrow>
     request_failed_message res = JStr (''Request failed ('' @ dec (http_status res) @ '')'')"
  by (simp add: request_failed_message_def)

lemma handle_unparseable:
  "\<not> ok res \<Longrightarrow> body res = Inl e \<Longrightarrow>
     handleApiError res fallbackMessage = Inl (JsError (JStr fallbackMessage))"
  by (simp add: handleApiError_def)

text \<open>
  C5, as the spec states it, fails on \<^verbatim>\<open>requestJson\<close>: a 500 response whose body has no
  \<^verbatim>\<open>detail\<close> but a \<^verbatim>\<open>message\<close> member surfaces that member, not a generic fallback naming the
  status or the operation; and a body whose \<^verbatim>\<open>detail\<close> is the empty string surfaces the
  generic fallback, not that string.
\<close>

theorem gateway_message_field_counterexample:
  "own_prop ''detail'' (JObj [(''message'', JStr ''boom'')]) = None \<and>
   requestJson ''/api/attendance/mark''
     (Inr \<lparr>http_status = 500, body = Inr (JObj [(''message'', JStr ''boom'')])\<rparr>)
   = Inl (JsError (JStr ''boom'')) \<and>
   own_prop ''detail'' (JObj [(''detail'', JStr [])]) = Some (JStr []) \<and>
   requestJson ''/api/attendance/mark''
     (Inr \<lparr>http_status = 500, body = Inr (JObj [(''detail'', JStr [])])\<rparr>)
   = Inl (JsError (JStr ''Request failed (500)''))"
proof -
  have d: "dec 500 = ''500''" by code_simp
  show ?thesis
    by (simp add: requestJson_def ok_def request_failed_message_def opt_chain_def truthy_def d)
qed

text \<open>
  C5, amended. On a response that is not 2xx both gateway revisions throw exactly one
  \<^verbatim>\<open>Error\<close>. Its message is the body's \<^verbatim>\<open>detail\<close> when that is a non-empty string, and the
  \<^verbatim>\<open>msg\<close> of the first entry when \<^verbatim>\<open>detail\<close> is an array whose first entry has a non-empty
  string \<^verbatim>\<open>msg\<close>. Without a truthy \<^verbatim>\<open>detail\<close>, \<^verbatim>\<open>requestJson\<close> surfaces the body's truthy
  \<^verbatim>\<open>message\<close> member when there is one and \<^verbatim>\<open>Request failed (status)\<close> otherwise, while
  \<^verbatim>\<open>handleApiError\<close> surfaces the caller's fallback message; a body that does not parse
  yields the fallback in both.
\<close>

theorem gateway_error_message:
  "\<not> ok res \<Longrightarrow>
   requestJson url (Inr res) = Inl (JsError (request_failed_message res)) \<and>
   (\<exists>m. handleApiError res fallbackMessage = Inl (JsError m)) \<and>
   (body res = Inr b \<and> own_prop ''detail'' b = Some (JStr x) \<and> x \<noteq> [] \<longrightarrow>
      request_failed_message res = JStr x \<and>
      handleApiError res fallbackMessage = Inl (JsError (JStr x))) \<and>
   (body res = Inr b \<and> own_prop ''detail'' b = Some (JArr (entry # entries)) \<and>
    own_prop ''msg'' entry = Some (JStr msg) \<and> msg \<noteq> [] \<longrightarrow>
      request_failed_message res = JStr msg \<and>
      handleApiError res fallbackMessage = Inl (JsError (JStr msg))) \<and>
   (body res = Inr b \<and> \<not> truthy (own_prop ''detail'' b) \<and> own_prop ''message'' b = Some m \<and>
    truthy_json m \<longrightarrow>
      request_failed_message res = m \<and>
      handleApiError res fallbackMessage = Inl (JsError (JStr fallbackMessage))) \<and>
   (body res = Inr b \<and> \<not> truthy (own_prop ''detail'' b) \<and> \<not> truthy (own_prop ''message'' b) \<longrightarrow>
      request_failed_message res = JStr (''Request failed ('' @ dec (http_status res) @ '')'') \<and>
      handleApiError res fallbackMessage = Inl (JsError (JStr fallbackMessage))) \<and>
   (body res = Inl e \<longrightarrow>
      request_failed_message res = JStr (''Request failed ('' @ dec (http_status res) @ '')'') \<and>
      handleApiError res fallbackMessage = Inl (JsError (JStr fallbackMessage)))"
proof (intro conjI impI)
  assume nok: "\<not> ok res"
  show "requestJson url (Inr res) = Inl (JsError (request_failed_message res))"
    using nok by (rule not_ok_requestJson)
  show "\<exists>m. handleApiError res fallbackMessage = Inl (JsError m)"
    using nok by (rule not_ok_handleApiError)
  {
    assume h: "body res = Inr b \<and> own_prop ''detail'' b = Some (JStr x) \<and> x \<noteq> []"
    show "request_failed_message res = JStr x"
      using h by (simp add: request_failed_string_detail)
    show "handleApiError res fallbackMessage = Inl (JsError (JStr x))"
      using nok h by (simp add: handle_string_detail)
  }
  {
    assume h: "body res = Inr b \<and> own_prop ''detail'' b = Some (JArr (entry # entries)) \<and>
      own_prop ''msg'' entry = Some (JStr msg) \<and> msg \<noteq> []"
    show "request_failed_message res = JStr msg"
      using h request_failed_array_detail[of res b entry entries msg] by simp
    show "handleApiError res fallbackMessage = Inl (JsError (JStr msg))"
      using nok h handle_array_detail[of res b entry entries msg] by simp
  }
  {
    assume h: "body res = Inr b \<and> \<not> truthy (own_prop ''detail'' b) \<and>
      own_prop ''message'' b = Some m \<and> truthy_json m"
    show "request_failed_message res = m"
      using h request_failed_message_field[of res b m] by simp
    show "handleApiError res fallbackMessage = Inl (JsError (JStr fallbackMessage))"
      using nok h handle_no_detail[of res b] by simp
  }
  {
    assume h: "body res = Inr b \<and> \<not> truthy (own_prop ''detail'' b) \<and>
      \<not> truthy (own_prop ''message'' b)"
    show "request_failed_message res = JStr (''Request failed ('' @ dec (http_status res) @ '')'')"
      using h request_failed_generic[of res b] by simp
    show "handleApiError res fallbackMessage = Inl (JsError (JStr fallbackMessage))"
      using nok h handle_no_detail[of res b] by simp
  }
  {
    assume h: "body res = Inl e"
    show "request_failed_message res = JStr (''Request failed ('' @ dec (http_status res) @ '')'')"
      using h by (rule request_failed_unparseable)
    show "handleApiError res fallbackMessage = Inl (JsError (JStr fallbackMessage))"
      using nok h by (rule handle_unparseable)
  }
qed

theorem gateway_error_message_witness:
  "requestJson ''/api/attendance/mark''
     (Inr \<lparr>http_status = 403, body = Inr (JObj [(''detail'', JStr ''Not a teacher'')])\<rparr>)
     = Inl (JsError (JStr ''Not a teacher'')) \<and>
   handleApiError \<lparr>http_status = 403, body = Inr (JObj [(''detail'', JStr ''Not a teacher'')])\<rparr>
     ''Failed to mark attendance'' = Inl (JsError (JStr ''Not a teacher'')) \<and>
   requestJson ''/api/auth/login''
     (Inr \<lparr>http_status = 422, body = Inr (JObj [(''detail'',
        JArr [JObj [(''loc'', JArr [JStr ''body'']), (''msg'', JStr ''field required'')]])])\<rparr>)
     = Inl (JsError (JStr ''field required'')) \<and>
   requestJson ''/api/auth/login'' (Inr \<lparr>http_status = 500, body = Inr (JObj [(''message'', JStr ''boom'')])\<rparr>)
     = Inl (JsError (JStr ''boom'')) \<and>
   handleApiError \<lparr>http_status = 500, body = Inr (JObj [(''message'', JStr ''boom'')])\<rparr> ''Login failed''
     = Inl (JsError (JStr ''Login failed'')) \<and>
   requestJson ''/api/auth/login'' (Inr \<lparr>http_status = 500, body = Inr (JObj [(''detail'', JStr '''')])\<rparr>)
     = Inl (JsError (JStr ''Request failed (500)'')) \<and>
   requestJson ''/api/auth/login'' (Inr \<lparr>http_status = 502, body = Inl SyntaxError\<rparr>)
     = Inl (JsError (JStr ''Request failed (502)'')) \<and>
   handleApiError \<lparr>http_status = 502, body = Inl SyntaxError\<rparr> ''Login failed''
     = Inl (JsError (JStr ''Login failed''))"
proof -
  let ?r1 = "\<lparr>http_status = 403, body = Inr (JObj [(''detail'', JStr ''Not a teacher'')])\<rparr>"
  let ?e2 = "JObj [(''loc'', JArr [JStr ''body'']), (''msg'', JStr ''field required'')]"
  let ?r2 = "\<lparr>http_status = 422, body = Inr (JObj [(''detail'', JArr [?e2])])\<rparr>"
  let ?r3 = "\<lparr>http_status = 500, body = Inr (JObj [(''message'', JStr ''boom'')])\<rparr>"
  let ?r4 = "\<lparr>http_status = 500, body = Inr (JObj [(''detail'', JStr '''')])\<rparr>"
  let ?r5 = "\<lparr>http_status = 502, body = Inl SyntaxError\<rparr>"
  have d500: "dec 500 = ''500''" and d502: "dec 502 = ''502''"
    by code_simp+
  have 1: "requestJson ''/api/attendance/mark'' (Inr ?r1) = Inl (JsError (JStr ''Not a teacher''))
      \<and> handleApiError ?r1 ''Failed to mark attendance'' = Inl (JsError (JStr ''Not a teacher''))"
    using gateway_error_message[of ?r1 "''/api/attendance/mark''" "''Failed to mark attendance''"
        "JObj [(''detail'', JStr ''Not a teacher'')]" "''Not a teacher''"]
    by (simp add: ok_def)
  have 2: "requestJson ''/api/auth/login'' (Inr ?r2) = Inl (JsError (JStr ''field required''))"
    using gateway_error_message[of ?r2 "''/api/auth/login''" "''Login failed''"
        "JObj [(''detail'', JArr [?e2])]" _ ?e2 "[]" "''field required''"]
    by (simp add: ok_def)
  have 3: "requestJson ''/api/auth/login'' (Inr ?r3) = Inl (JsError (JStr ''boom''))
      \<and> handleApiError ?r3 ''Login failed'' = Inl (JsError (JStr ''Login failed''))"
    using gateway_error_message[of ?r3 "''/api/auth/login''" "''Login failed''"
        "JObj [(''message'', JStr ''boom'')]" _ _ _ _ "JStr ''boom''"]
    by (simp add: ok_def truthy_def)
  have 4: "requestJson ''/api/auth/login'' (Inr ?r4) = Inl (JsError (JStr ''Request failed (500)''))"
    using gateway_error_message[of ?r4 "''/api/auth/login''" "''Login failed''"
        "JObj [(''detail'', JStr '''')]"]
    by (simp add: ok_def truthy_def d500)
  have 5: "requestJson ''/api/auth/login'' (Inr ?r5) = Inl (JsError (JStr ''Request failed (502)''))
      \<and> handleApiError ?r5 ''Login failed'' = Inl (JsError (JStr ''Login failed''))"
    using gateway_error_message[of ?r5 "''/api/auth/login''" "''Login failed''" _ _ _ _ _ _ SyntaxError]
    by (simp add: ok_def d502)
  from 1 2 3 4 5 show ?thesis by simp
qed

subsection \<open>Session store\<close>

text \<open>
  C9. Whatever the storage held before and whatever token and profile are stored,
  \<^verbatim>\<open>setAuth\<close> followed by \<^verbatim>\<open>logout\<close> leaves neither the \<^verbatim>\<open>access_token\<close> key nor the \<^verbatim>\<open>user\<close>
  key; \<^verbatim>\<open>isAuthenticated()\<close> is then false and \<^verbatim>\<open>getUser()\<close> returns \<^verbatim>\<open>null\<close> without
  parsing anything; the storage is the one a \<^verbatim>\<open>logout\<close> alone would have left.
\<close>

theorem setAuth_logout_roundtrip:
  "getItem ''access_token'' (logout (setAuth JSON_stringify token user s)) = None \<and>
   getItem ''user'' (logout (setAuth JSON_stringify token user s)) = None \<and>
   isAuthenticated (logout (setAuth JSON_stringify token user s)) = False \<and>
   getUser JSON_parse (logout (setAuth JSON_stringify token user s)) = Inr JNull \<and>
   logout (setAuth JSON_stringify token user s) = logout s"
  by (simp add: logout_def setAuth_def getItem_def setItem_def removeItem_def
      isAuthenticated_def getUser_def)

subsection \<open>Token payload decoding\<close>

lemma decodeJWT_cases:
  "decodeJWT A D P token =
     (case decodeJWT_try A D P token of Inl e \<Rightarrow> Inr JNull | Inr v \<Rightarrow> Inr v)"
  by (simp add: decodeJWT_def)

text \<open>
  C10. Whatever \<^verbatim>\<open>atob\<close>, \<^verbatim>\<open>decodeURIComponent\<close> and \<^verbatim>\<open>JSON.parse\<close> do, \<^verbatim>\<open>decodeJWT\<close> returns a
  value for every token and never throws. It returns \<^verbatim>\<open>null\<close> when the token has no second
  dot-separated segment, when \<^verbatim>\<open>atob\<close> rejects the segment, when the decoded bytes are not
  a valid percent-encoded text, and when the text is not JSON; otherwise it returns
  what \<^verbatim>\<open>JSON.parse\<close> returned for the payload.
\<close>

theorem decodeJWT_never_throws:
  "(\<exists>v. decodeJWT A D P token = Inr v) \<and>
   (at_index (split_at CHR ''.'' token) 1 = None \<longrightarrow> decodeJWT A D P token = Inr JNull) \<and>
   (at_index (split_at CHR ''.'' token) 1 = Some seg \<and>
    A (replace_char CHR ''_'' CHR ''/'' (replace_char CHR ''-'' CHR ''+'' seg)) = Inl e \<longrightarrow>
      decodeJWT A D P token = Inr JNull) \<and>
   (at_index (split_at CHR ''.'' token) 1 = Some seg \<and>
    A (replace_char CHR ''_'' CHR ''/'' (replace_char CHR ''-'' CHR ''+'' seg)) = Inr bin \<and>
    D (concat (map percent_hex bin)) = Inl e \<longrightarrow>
      decodeJWT A D P token = Inr JNull) \<and>
   (at_index (split_at CHR ''.'' token) 1 = Some seg \<and>
    A (replace_char CHR ''_'' CHR ''/'' (replace_char CHR ''-'' CHR ''+'' seg)) = Inr bin \<and>
    D (concat (map percent_hex bin)) = Inr txt \<and> P txt = Inl e \<longrightarrow>
      decodeJWT A D P token = Inr JNull) \<and>
   (at_index (split_at CHR ''.'' token) 1 = Some seg \<and>
    A (replace_char CHR ''_'' CHR ''/'' (replace_char CHR ''-'' CHR ''+'' seg)) = Inr bin \<and>
    D (concat (map percent_hex bin)) = Inr txt \<and> P txt = Inr v \<longrightarrow>
      decodeJWT A D P token = Inr v)"
proof (intro conjI impI)
  show "\<exists>v. decodeJWT A D P token = Inr v"
    by (cases "decodeJWT_try A D P token") (simp_all add: decodeJWT_cases)
qed (simp_all add: decodeJWT_def decodeJWT_try_def)

theorem decodeJWT_never_throws_witness:
  "decodeJWT (\<lambda>s. if s = ''e30'' then Inr ''{}'' else Inl InvalidCharacterError)
             (\<lambda>s. if s = ''%7b%7d'' then Inr ''{}'' else Inl URIError)
             (\<lambda>s. if s = ''{}'' then Inr (JObj []) else Inl SyntaxError) ''h.e30.s'' = Inr (JObj []) \<and>
   decodeJWT (\<lambda>s. if s = ''e30'' then Inr ''{}'' else Inl InvalidCharacterError)
             (\<lambda>s. if s = ''%7b%7d'' then Inr ''{}'' else Inl URIError)
             (\<lambda>s. if s = ''{}'' then Inr (JObj []) else Inl SyntaxError) ''not-a-token'' = Inr JNull \<and>
   decodeJWT (\<lambda>s. if s = ''e30'' then Inr ''{}'' else Inl InvalidCharacterError)
             (\<lambda>s. if s = ''%7b%7d'' then Inr ''{}'' else Inl URIError)
             (\<lambda>s. if s = ''{}'' then Inr (JObj []) else Inl SyntaxError) ''h.!!.s'' = Inr JNull \<and>
   decodeJWT (\<lambda>s. Inr ''{'') (\<lambda>s. Inl URIError)
             (\<lambda>s. Inl SyntaxError) ''h.ew.s'' = Inr JNull \<and>
   decodeJWT (\<lambda>s. Inr ''{'') (\<lambda>s. Inr ''{'')
             (\<lambda>s. Inl SyntaxError) ''h.ew.s'' = Inr JNull"
proof -
  let ?A = "\<lambda>s. if s = ''e30'' then Inr ''{}'' else Inl InvalidCharacterError"
  let ?D = "\<lambda>s. if s = ''%7b%7d'' then Inr ''{}'' else Inl URIError"
  let ?P = "\<lambda>s. if s = ''{}'' then Inr (JObj []) else Inl SyntaxError"
  have s1: "at_index (split_at CHR ''.'' ''h.e30.s'') 1 = Some ''e30''"
    and s2: "at_index (split_at CHR ''.'' ''not-a-token'') 1 = None"
    and s3: "at_index (split_at CHR ''.'' ''h.!!.s'') 1 = Some ''!!''"
    and s4: "at_index (split_at CHR ''.'' ''h.ew.s'') 1 = Some ''ew''"
    by (simp_all add: at_index_def)
  have hx: "concat (map percent_hex ''{}'') = ''%7b%7d''"
    by code_simp
  have 1: "decodeJWT ?A ?D ?P ''h.e30.s'' = Inr (JObj [])"
    using decodeJWT_never_throws[of ?A ?D ?P "''h.e30.s''" "''e30''" _ "''{}''" "''{}''" "JObj []"] s1 hx
    by (simp add: replace_char_def)
  have 2: "decodeJWT ?A ?D ?P ''not-a-token'' = Inr JNull"
    using decodeJWT_never_throws[of ?A ?D ?P "''not-a-token''"] s2 by simp
  have 3: "decodeJWT ?A ?D ?P ''h.!!.s'' = Inr JNull"
    using decodeJWT_never_throws[of ?A ?D ?P "''h.!!.s''" "''!!''" InvalidCharacterError] s3
    by (simp add: replace_char_def)
  have 4: "decodeJWT (\<lambda>s. Inr ''{'') (\<lambda>s. Inl URIError) (\<lambda>s. Inl SyntaxError) ''h.ew.s'' = Inr JNull"
    using decodeJWT_never_throws[of "\<lambda>s. Inr ''{''" "\<lambda>s. Inl URIError" "\<lambda>s. Inl SyntaxError"
        "''h.ew.s''" "''ew''" URIError "''{''"] s4
    by simp
  have 5: "decodeJWT (\<lambda>s. Inr ''{'') (\<lambda>s. Inr ''{'') (\<lambda>s. Inl SyntaxError) ''h.ew.s'' = Inr JNull"
    using decodeJWT_never_throws[of "\<lambda>s. Inr ''{''" "\<lambda>s. Inr ''{''" "\<lambda>s. Inl SyntaxError"
        "''h.ew.s''" "''ew''" SyntaxError "''{''" "''{''"] s4
    by simp
  from 1 2 3 4 5 show ?thesis by simp
qed


subsection \<open>Stopping the camera\<close>

lemma stop_tracks_apply: "stop_tracks stream lv t = (lv t \<and> t \<notin> set stream)"
  unfolding stop_tracks_def
  by (induction stream arbitrary: lv) auto

lemma stopCamera_streamRef: "streamRef (stopCamera s) = None"
  by (simp add: stopCamera_def Let_def split: option.splits)

lemma stopCamera_inactive: "isCameraActive (stopCamera s) = False"
  by (simp add: stopCamera_def Let_def split: option.splits)

lemma stopCamera_video: "video_source (stopCamera s) = None"
  by (simp add: stopCamera_def video_source_def Let_def split: option.splits)

lemma stopCamera_live: "live (stopCamera s) = (\<lambda>t. live s t \<and> t \<notin> set (held_tracks s))"
  by (auto simp add: stopCamera_def held_tracks_def Let_def stop_tracks_apply fun_eq_iff
      split: option.splits)

lemma stopCamera_idem: "stopCamera (stopCamera s) = stopCamera s"
  by (simp add: stopCamera_def Let_def split: option.splits)

lemma stopCamera_funpow: "(stopCamera ^^ Suc n) s = stopCamera s"
  by (induction n) (simp_all add: stopCamera_idem)

lemma unmount_cleanup_live:
  "live (unmount_cleanup s) = (\<lambda>t. live s t \<and> t \<notin> set (held_tracks s))"
  by (auto simp add: unmount_cleanup_def held_tracks_def stop_tracks_apply fun_eq_iff
      split: option.splits)

text \<open>
  What \<^verbatim>\<open>stopCamera\<close> and the unmount cleanup do release is the stream in \<^verbatim>\<open>streamRef\<close>, and
  nothing else: a track that is live and not in that stream is live afterwards. Calling
  \<^verbatim>\<open>stopCamera\<close> again changes nothing.
\<close>

lemma stopCamera_held_stream:
  "streamRef (stopCamera s) = None \<and>
   isCameraActive (stopCamera s) = False \<and>
   video_source (stopCamera s) = None \<and>
   live (stopCamera s) = (\<lambda>t. live s t \<and> t \<notin> set (held_tracks s)) \<and>
   (stopCamera ^^ Suc n) s = stopCamera s \<and>
   live (unmount_cleanup s) = live (stopCamera s)"
  by (simp add: stopCamera_streamRef stopCamera_inactive stopCamera_video stopCamera_live
      stopCamera_funpow unmount_cleanup_live del: funpow.simps)

subsection \<open>Mark attendance: the camera never starts\<close>

text \<open>
  \<^verbatim>\<open>startCamera\<close> keeps the granted stream and sets \<^verbatim>\<open>isCameraActive\<close> only if the video is
  mounted, and the video is mounted only while \<^verbatim>\<open>isCameraActive\<close>. So whatever happens the
  page stays as it started: the camera flag off, no run of \<^verbatim>\<open>captureAndProcess\<close>, no call
  of the endpoint, nothing disclosed. A granted stream is neither kept nor stopped: its
  tracks stay live under every later event.
\<close>

lemma ma_run_append: "ma_run (es @ fs) s = ma_run fs (ma_run es s)"
  by (induction es arbitrary: s) simp_all

lemma never_started_init: "never_started ma_init"
  by (simp add: never_started_def ma_init_def)

lemma never_started_step: "never_started s \<Longrightarrow> never_started (ma_step e s)"
  by (cases e)
     (simp_all add: never_started_def ma_camera_granted_def camera_denied_def
        camera_denied_toast_def blob_callback_def mark_response_def reveal_tick_def
        media_progress_def Let_def)

lemma never_started_run: "never_started s \<Longrightarrow> never_started (ma_run es s)"
  by (induction es arbitrary: s) (simp_all add: never_started_step)

lemma never_started_reachable: "never_started (ma_run es ma_init)"
  by (simp add: never_started_run never_started_init)

lemma live_kept_step: "never_started s \<Longrightarrow> live s t \<Longrightarrow> live (ma_step e s) t"
  by (cases e)
     (simp_all add: never_started_def ma_camera_granted_def camera_denied_def
        blob_callback_def mark_response_def reveal_tick_def media_progress_def Let_def)

lemma live_kept_run: "never_started s \<Longrightarrow> live s t \<Longrightarrow> live (ma_run es s) t"
  by (induction es arbitrary: s) (simp_all add: never_started_step live_kept_step)

lemma start_grant_live:
  "never_started s \<Longrightarrow> live (ma_run [ClickStartCamera, CameraGranted [t]] s) t"
  by (simp add: never_started_def ma_camera_granted_def Let_def)

lemma granted_track_stays_live:
  "live (ma_run (es @ [ClickStartCamera, CameraGranted [t]] @ fs) ma_init) t \<and>
   streamRef (ma_run (es @ [ClickStartCamera, CameraGranted [t]] @ fs) ma_init) = None"
proof -
  let ?s = "ma_run es ma_init"
  let ?g = "ma_run [ClickStartCamera, CameraGranted [t]] ?s"
  have n: "never_started ?s" by (rule never_started_reachable)
  have ng: "never_started ?g" using n by (rule never_started_run)
  have "live ?g t" using n by (rule start_grant_live)
  with ng have "live (ma_run fs ?g) t" by (rule live_kept_run)
  moreover have "never_started (ma_run fs ?g)" using ng by (rule never_started_run)
  ultimately show ?thesis by (simp add: ma_run_append never_started_def)
qed

lemma unreleased_after_stop:
  "streamRef s = None \<Longrightarrow> live (stopCamera s) t = live s t \<and> live (unmount_cleanup s) t = live s t"
  by (simp add: stopCamera_live unmount_cleanup_live held_tracks_def)

text \<open>
  C7 fails on the code. On the attendance page a click on \<^verbatim>\<open>Start Camera\<close> that the user
  grants, at any moment and whatever follows, leaves the granted track capturing: the
  stream is not stored, and neither \<^verbatim>\<open>stopCamera\<close> nor the unmount cleanup stops it. So it
  is after the first click and grant on the fresh page. On the enrolment page two clicks
  on \<^verbatim>\<open>Start Camera\<close> answered by two grants leave the first stream's track capturing
  after \<^verbatim>\<open>Stop\<close>, and after the unmount cleanup.
\<close>

theorem granted_stream_not_released:
  "live (stopCamera (ma_run (es @ [ClickStartCamera, CameraGranted [t]] @ fs) ma_init)) t \<and>
   live (unmount_cleanup (ma_run (es @ [ClickStartCamera, CameraGranted [t]] @ fs) ma_init)) t \<and>
   isCameraActive (ma_run [ClickStartCamera, CameraGranted [1]] ma_init) = False \<and>
   streamRef (ma_run [ClickStartCamera, CameraGranted [1]] ma_init) = None \<and>
   live (ma_run [ClickStartCamera, CameraGranted [1]] ma_init) 1 \<and>
   live (stopCamera (ma_run [ClickStartCamera, CameraGranted [1]] ma_init)) 1 \<and>
   live (unmount_cleanup (ma_run [ClickStartCamera, CameraGranted [1]] ma_init)) 1 \<and>
   isCameraActive (st_run [StClickStartCamera, StClickStartCamera, StCameraGranted [1],
      StCameraGranted [2], StClickStop] st_init) = False \<and>
   streamRef (st_run [StClickStartCamera, StClickStartCamera, StCameraGranted [1],
      StCameraGranted [2], StClickStop] st_init) = None \<and>
   live (st_run [StClickStartCamera, StClickStartCamera, StCameraGranted [1],
      StCameraGranted [2], StClickStop] st_init) 1 \<and>
   live (stopCamera (st_run [StClickStartCamera, StClickStartCamera, StCameraGranted [1],
      StCameraGranted [2], StClickStop] st_init)) 1 \<and>
   live (unmount_cleanup (st_run [StClickStartCamera, StClickStartCamera, StCameraGranted [1],
      StCameraGranted [2]] st_init)) 1"
proof -
  let ?s = "ma_run (es @ [ClickStartCamera, CameraGranted [t]] @ fs) ma_init"
  have g: "live ?s t" "streamRef ?s = None"
    using granted_track_stays_live[of es t fs] by simp_all
  have a: "live (stopCamera ?s) t" "live (unmount_cleanup ?s) t"
    using unreleased_after_stop[OF g(2), of t] g(1) by simp_all
  have b: "isCameraActive (ma_run [ClickStartCamera, CameraGranted [1]] ma_init) = False"
    "streamRef (ma_run [ClickStartCamera, CameraGranted [1]] ma_init) = None"
    "live (ma_run [ClickStartCamera, CameraGranted [1]] ma_init) 1"
    by (simp_all add: ma_init_def ma_camera_granted_def Let_def)
  have c: "live (stopCamera (ma_run [ClickStartCamera, CameraGranted [1]] ma_init)) 1"
    "live (unmount_cleanup (ma_run [ClickStartCamera, CameraGranted [1]] ma_init)) 1"
    using unreleased_after_stop[OF b(2), of 1] b(3) by simp_all
  let ?e = "st_run [StClickStartCamera, StClickStartCamera, StCameraGranted [1],
      StCameraGranted [2], StClickStop] st_init"
  have d: "isCameraActive ?e = False" "streamRef ?e = None" "live ?e 1"
    by (simp_all add: st_init_def fresh_video_def fresh_canvas_def st_camera_granted_def
        stopCamera_def stop_tracks_def Let_def)
  have e: "live (stopCamera ?e) 1"
    using unreleased_after_stop[OF d(2), of 1] d(3) by simp
  have f: "live (unmount_cleanup (st_run [StClickStartCamera, StClickStartCamera,
      StCameraGranted [1], StCameraGranted [2]] st_init)) 1"
    by (simp add: st_init_def fresh_video_def fresh_canvas_def st_camera_granted_def
        unmount_cleanup_def stop_tracks_def Let_def)
  from a b c d e f show ?thesis by (intro conjI)
qed


subsection \<open>One submission at a time\<close>

lemma ma_inv_init: "ma_inv ma_init"
  by (simp add: ma_inv_def single_run_def pending_runs_def ma_init_def)

lemma stopCamera_ma_fields:
  "blob_pending (stopCamera s) = blob_pending s"
  "in_flight (stopCamera s) = in_flight s"
  "revealing (stopCamera s) = revealing s"
  "requests (stopCamera s) = requests s"
  "detectedStudents (stopCamera s) = detectedStudents s"
  "isProcessing (stopCamera s) = isProcessing s"
  by (simp_all add: stopCamera_def Let_def split: option.splits)

lemma ma_inv_stop: "ma_inv s \<Longrightarrow> ma_inv ((stopCamera s)\<lparr>videoRef := None\<rparr>)"
  by (simp add: ma_inv_def single_run_def pending_runs_def stopCamera_ma_fields)

lemma ma_inv_granted: "ma_inv s \<Longrightarrow> ma_inv (ma_camera_granted stream s)"
  by (simp add: ma_inv_def single_run_def pending_runs_def ma_camera_granted_def Let_def
      split: option.splits)

lemma ma_inv_capture: "ma_inv s \<Longrightarrow> \<not> isProcessing s \<Longrightarrow> ma_inv (captureAndProcess s)"
  by (simp add: ma_inv_def single_run_def pending_runs_def captureAndProcess_def Let_def
      split: option.splits)

lemma ma_inv_blob: "ma_inv s \<Longrightarrow> ma_inv (blob_callback b s)"
  by (auto simp add: ma_inv_def single_run_def pending_runs_def blob_callback_def ma_failed_def
      Let_def split: list.splits)

lemma ma_inv_response: "ma_inv s \<Longrightarrow> ma_inv (mark_response a s)"
  by (auto simp add: ma_inv_def single_run_def pending_runs_def mark_response_def ma_failed_def
      Let_def split: list.splits sum.splits)

lemma ma_inv_tick: "ma_inv s \<Longrightarrow> ma_inv (reveal_tick s)"
  by (auto simp add: ma_inv_def single_run_def pending_runs_def reveal_tick_def Let_def
      split: list.splits)

lemma ma_inv_progress: "ma_inv s \<Longrightarrow> ma_inv (media_progress ready w h f s)"
  by (simp add: ma_inv_def single_run_def pending_runs_def media_progress_def
      split: option.splits)

lemma ma_inv_step: "ma_inv s \<Longrightarrow> ma_inv (ma_step e s)"
proof (cases e)
  case ClickStopCamera
  then show "ma_inv s \<Longrightarrow> ?thesis" by (simp add: ma_inv_stop)
next
  case (CameraGranted stream)
  then show "ma_inv s \<Longrightarrow> ?thesis" by (simp add: ma_inv_granted)
next
  case ClickCapture
  then show "ma_inv s \<Longrightarrow> ?thesis" by (simp add: ma_inv_capture)
next
  case (BlobReady b)
  then show "ma_inv s \<Longrightarrow> ?thesis" by (simp add: ma_inv_blob)
next
  case (MarkResponse a)
  then show "ma_inv s \<Longrightarrow> ?thesis" by (simp add: ma_inv_response)
next
  case RevealTimer
  then show "ma_inv s \<Longrightarrow> ?thesis" by (simp add: ma_inv_tick)
next
  case (VideoProgress ready w h f)
  then show "ma_inv s \<Longrightarrow> ?thesis" by (simp add: ma_inv_progress)
qed (simp_all add: ma_inv_def single_run_def pending_runs_def camera_denied_def)

lemma ma_inv_run: "ma_inv s \<Longrightarrow> ma_inv (ma_run es s)"
  by (induction es arbitrary: s) (simp_all add: ma_inv_step)

lemma ma_inv_reachable: "ma_inv (ma_run es ma_init)"
  by (simp add: ma_inv_run ma_inv_init)


lemma ma_inv_busy: "ma_inv s \<Longrightarrow> pending_runs s \<noteq> 0 \<Longrightarrow> isProcessing s"
  by (auto simp add: ma_inv_def single_run_def)

lemma click_while_processing: "isProcessing s \<Longrightarrow> ma_step ClickCapture s = s"
  by simp




lemma st_inv_init: "st_inv st_init"
  by (simp add: st_inv_def st_init_def)

lemma stopCamera_st_inv: "st_inv s \<Longrightarrow> st_inv (stopCamera s)"
  by (simp add: st_inv_def stopCamera_def Let_def split: option.splits)

lemma st_render_fields:
  "registering (st_render s) = registering s"
  "registrations (st_render s) = registrations s"
  "isProcessing (st_render s) = isProcessing s"
  by (simp_all add: st_render_def split: option.splits)

lemma st_render_inv: "st_inv s \<Longrightarrow> st_inv (st_render s)"
  by (simp add: st_inv_def st_render_fields)

lemma st_inv_submit_form: "st_inv s \<Longrightarrow> st_inv (submit_form s)"
  by (auto simp add: st_inv_def submit_form_def submit_def split: option.splits)

lemma st_inv_response: "st_inv s \<Longrightarrow> st_inv (register_response a s)"
  by (auto simp add: st_inv_def register_response_def Let_def split: list.splits sum.splits)

lemma st_inv_photo: "st_inv s \<Longrightarrow> st_inv (photo_callback b s)"
proof -
  assume inv: "st_inv s"
  show ?thesis
  proof (cases "photo_pending s")
    case Nil
    then show ?thesis using inv by (simp add: photo_callback_def)
  next
    case (Cons p rest)
    obtain roll blob where p: "p = (roll, blob)" by (cases p)
    show ?thesis
    proof (cases b)
      case False
      then show ?thesis using inv Cons p by (simp add: photo_callback_def st_inv_def)
    next
      case True
      have "st_inv (s\<lparr>photo_pending := rest,
          capturedFile := Some \<lparr>file_name = ''student_'' @ (if roll = [] then ''face'' else roll) @ ''.jpg'',
                          file_type = ''image/jpeg'', file_data = blob\<rparr>,
          capturedImage := Some (encode (case canvasRef s of Some c \<Rightarrow> c | None \<Rightarrow> pixels blob)
             ''image/jpeg'' None)\<rparr>)"
        using inv by (simp add: st_inv_def)
      from stopCamera_st_inv[OF this] show ?thesis
        using True Cons p by (simp add: photo_callback_def Let_def)
    qed
  qed
qed

lemma st_inv_upload: "st_inv s \<Longrightarrow> st_inv (handleFileUpload chosen s)"
proof (cases chosen)
  case None
  then show "st_inv s \<Longrightarrow> ?thesis" by (simp add: handleFileUpload_def)
next
  case (Some chosen_file)
  assume "st_inv s"
  then have "st_inv (s\<lparr>capturedFile := Some chosen_file,
      reads_pending := reads_pending s @ [chosen_file]\<rparr>)"
    by (simp add: st_inv_def)
  from stopCamera_st_inv[OF this] show ?thesis using Some by (simp add: handleFileUpload_def)
qed

lemma st_inv_step: "st_inv s \<Longrightarrow> st_inv (st_step e s)"
proof (cases e)
  case (StCameraGranted stream)
  then show "st_inv s \<Longrightarrow> ?thesis"
    by (simp add: st_inv_def st_camera_granted_def Let_def split: option.splits)
next
  case StClickStop
  then show "st_inv s \<Longrightarrow> ?thesis" by (simp add: stopCamera_st_inv)
next
  case StClickCapture
  then show "st_inv s \<Longrightarrow> ?thesis"
    by (simp add: st_inv_def capturePhoto_def Let_def split: option.splits)
next
  case (PhotoReady b)
  then show "st_inv s \<Longrightarrow> ?thesis" by (simp add: st_inv_photo st_render_inv)
next
  case (StUpload chosen)
  then show "st_inv s \<Longrightarrow> ?thesis" by (simp add: st_inv_upload)
next
  case ReaderLoaded
  then show "st_inv s \<Longrightarrow> ?thesis"
    by (simp add: st_inv_def st_render_fields reader_loaded_def split: list.splits)
next
  case StClickRetake
  then show "st_inv s \<Longrightarrow> ?thesis"
    by (simp add: st_inv_def st_render_fields resetCapture_def)
next
  case StSubmit
  then show "st_inv s \<Longrightarrow> ?thesis" by (simp add: st_inv_submit_form)
next
  case (RegisterResponse a)
  then show "st_inv s \<Longrightarrow> ?thesis" by (simp add: st_inv_response)
next
  case ResetTimeout
  then show "st_inv s \<Longrightarrow> ?thesis"
    by (simp add: st_inv_def st_render_fields reset_timeout_def resetCapture_def)
next
  case (StVideoProgress ready w h f)
  then show "st_inv s \<Longrightarrow> ?thesis"
    by (simp add: st_inv_def media_progress_def split: option.splits)
qed (simp_all add: st_inv_def camera_denied_def)

lemma st_inv_reachable: "st_inv (st_run es st_init)"
proof -
  have "\<And>s. st_inv s \<Longrightarrow> st_inv (st_run es s)"
    by (induction es) (simp_all add: st_inv_step)
  then show ?thesis using st_inv_init by blast
qed

lemma st_registering_busy:
  "st_inv s \<Longrightarrow> registering s \<noteq> [] \<Longrightarrow> isProcessing s \<and> length (registering s) = 1"
  by (auto simp add: st_inv_def)








subsection \<open>Mark attendance: the staged reveal\<close>

text \<open>
  The reveal loop itself, from a state in which it has just started: each firing of its
  timer discloses the next entry, and the last one raises the success card and ends the
  processing.
\<close>

lemma reveal_tick_continue:
  "revealing t = [(students, i)] \<Longrightarrow> Suc i < length students \<Longrightarrow>
   revealing (reveal_tick t) = [(students, Suc i)] \<and>
   detectedStudents (reveal_tick t) = detectedStudents t @ [students ! i] \<and>
   isProcessing (reveal_tick t) = isProcessing t \<and>
   showSuccess (reveal_tick t) = showSuccess t"
  by (simp add: reveal_tick_def Let_def)

lemma reveal_tick_last:
  "revealing t = [(students, i)] \<Longrightarrow> Suc i = length students \<Longrightarrow>
   revealing (reveal_tick t) = [] \<and>
   detectedStudents (reveal_tick t) = detectedStudents t @ [students ! i] \<and>
   isProcessing (reveal_tick t) = False \<and>
   showSuccess (reveal_tick t) = True"
  by (simp add: reveal_tick_def Let_def)

lemma reveal_progress:
  "revealing t = [(students, i)] \<Longrightarrow> i + k < length students \<Longrightarrow>
   revealing (ma_run (replicate k RevealTimer) t) = [(students, i + k)] \<and>
   detectedStudents (ma_run (replicate k RevealTimer) t) =
     detectedStudents t @ take k (drop i students) \<and>
   isProcessing (ma_run (replicate k RevealTimer) t) = isProcessing t \<and>
   showSuccess (ma_run (replicate k RevealTimer) t) = showSuccess t"
proof (induction k arbitrary: t i)
  case 0
  then show ?case by simp
next
  case (Suc k)
  have lt: "Suc i < length students" using Suc.prems(2) by simp
  note t1 = reveal_tick_continue[OF Suc.prems(1) lt]
  have ih: "revealing (ma_run (replicate k RevealTimer) (reveal_tick t)) = [(students, Suc i + k)] \<and>
     detectedStudents (ma_run (replicate k RevealTimer) (reveal_tick t)) =
       detectedStudents (reveal_tick t) @ take k (drop (Suc i) students) \<and>
     isProcessing (ma_run (replicate k RevealTimer) (reveal_tick t)) = isProcessing (reveal_tick t) \<and>
     showSuccess (ma_run (replicate k RevealTimer) (reveal_tick t)) = showSuccess (reveal_tick t)"
    using Suc.IH[of "reveal_tick t" "Suc i"] t1 Suc.prems(2) by simp
  have dr: "drop i students = students ! i # drop (Suc i) students"
    using lt by (simp add: Cons_nth_drop_Suc)
  show ?case using ih t1 dr by simp
qed

lemma reveal_all:
  assumes r: "revealing t = [(students, 0)]" and ne: "students \<noteq> []"
  shows "revealing (ma_run (replicate (length students) RevealTimer) t) = [] \<and>
   detectedStudents (ma_run (replicate (length students) RevealTimer) t) =
     detectedStudents t @ students \<and>
   isProcessing (ma_run (replicate (length students) RevealTimer) t) = False \<and>
   showSuccess (ma_run (replicate (length students) RevealTimer) t) = True"
proof -
  obtain n where n: "length students = Suc n" using ne by (cases students) auto
  let ?t = "ma_run (replicate n RevealTimer) t"
  have p: "revealing ?t = [(students, n)] \<and> detectedStudents ?t = detectedStudents t @ take n students"
    using reveal_progress[OF r, of n] n by simp
  have l: "revealing (reveal_tick ?t) = [] \<and>
     detectedStudents (reveal_tick ?t) = detectedStudents ?t @ [students ! n] \<and>
     isProcessing (reveal_tick ?t) = False \<and> showSuccess (reveal_tick ?t) = True"
    using reveal_tick_last[of ?t students n] p n by simp
  have "replicate (Suc n) RevealTimer = replicate n RevealTimer @ [RevealTimer]"
    by (simp add: replicate_append_same)
  then have split: "ma_run (replicate (length students) RevealTimer) t = reveal_tick ?t"
    using n by (simp only: ma_run_append ma_run.simps ma_step.simps)
  have tk: "take n students @ [students ! n] = students"
    using n by (metis lessI take_Suc_conv_app_nth take_all order_refl)
  show ?thesis using l p split tk by simp
qed


subsection \<open>Mark attendance: the empty result\<close>

text \<open>
  The continuation of \<^verbatim>\<open>captureAndProcess\<close> on an answer without students and on a rejected
  request, from a state in which a call is in flight: both set \<^verbatim>\<open>error\<close>, which the banner
  shows; the toast is a warning for the first and an error for the second.
\<close>

lemma mark_response_empty:
  "in_flight s = call # rest \<Longrightarrow>
   students_present result = None \<or> students_present result = Some [] \<Longrightarrow>
   mark_response (Inr result) s =
     s\<lparr>in_flight := rest, error := Some ''No students detected in the image'',
       toasts := toasts s @ [toast_warning ''No students detected. Try again with better lighting.''],
       isProcessing := False\<rparr>"
  by (auto simp add: mark_response_def Let_def)

lemma mark_response_failed:
  "in_flight s = call # rest \<Longrightarrow>
   mark_response (Inl (Some msg)) s =
     s\<lparr>in_flight := rest, error := Some msg, toasts := toasts s @ [toast_error msg],
       isProcessing := False\<rparr>"
  by (simp add: mark_response_def ma_failed_def Let_def)



subsection \<open>Capturing a frame\<close>

lemma captureAndProcess_accepts:
  "subject_chosen m = Some subject \<Longrightarrow> canvasRef m = Some c \<Longrightarrow> videoRef m = Some v \<Longrightarrow>
   readyState v = 4 \<Longrightarrow>
   captureAndProcess m =
     m\<lparr>canvasRef := Some (if has_context c then drawImage v False (size_to_video v c)
                           else size_to_video v c),
       capturedImage := Some (encode (if has_context c then drawImage v False (size_to_video v c)
                           else size_to_video v c) ''image/jpeg'' (Some 0.9)),
       isProcessing := True, detectedStudents := [], error := None,
       blob_pending := blob_pending m @
         [(subject, encode (if has_context c then drawImage v False (size_to_video v c)
                           else size_to_video v c) ''image/jpeg'' (Some 0.9))]\<rparr>"
  by (simp add: captureAndProcess_def Let_def size_to_video_def)

lemma capturePhoto_accepts:
  "canvasRef s = Some c \<Longrightarrow> has_context c \<Longrightarrow> videoRef s = Some v \<Longrightarrow> readyState v = 4 \<Longrightarrow>
   capturePhoto s =
     s\<lparr>canvasRef := Some (drawImage v True (size_to_video v c)),
       photo_pending := photo_pending s @
         [(form_roll_no (form s),
           encode (drawImage v True (size_to_video v c)) ''image/jpeg'' (Some 0.9))]\<rparr>"
  by (simp add: capturePhoto_def Let_def size_to_video_def)

lemma stopCamera_st_fields:
  "capturedFile (stopCamera s) = capturedFile s"
  "capturedImage (stopCamera s) = capturedImage s"
  "photo_pending (stopCamera s) = photo_pending s"
  by (simp_all add: stopCamera_def Let_def split: option.splits)

lemma sized_canvas:
  "width (size_to_video v c) = videoWidth v \<and> height (size_to_video v c) = videoHeight v \<and>
   width (drawImage v flipped (size_to_video v c)) = videoWidth v \<and>
   height (drawImage v flipped (size_to_video v c)) = videoHeight v \<and>
   painted (drawImage v flipped (size_to_video v c)) = Some (frame v, flipped)"
  by (simp add: size_to_video_def drawImage_def)

text \<open>
  The two capture handlers and their \<^verbatim>\<open>toBlob\<close> callbacks, from a state in which the video
  is ready (\<^verbatim>\<open>readyState\<close> 4): both size the canvas to the video's native width and height
  and ask for a JPEG encoding at quality 0.9. \<^verbatim>\<open>capturePhoto\<close> needs a 2d context and paints
  the frame mirrored, and its callback stores the file and calls \<^verbatim>\<open>stopCamera\<close>, which
  stops the stream in \<^verbatim>\<open>streamRef\<close>; the callback of \<^verbatim>\<open>captureAndProcess\<close> posts the file and
  does not touch the camera.
\<close>

lemma capture_handlers_native_jpeg:
  "(canvasRef s = Some c \<and> has_context c \<and> videoRef s = Some v \<and> readyState v = 4 \<and>
    photo_pending s = [] \<longrightarrow>
      canvasRef (capturePhoto s) = Some (drawImage v True (size_to_video v c)) \<and>
      width (drawImage v True (size_to_video v c)) = videoWidth v \<and>
      height (drawImage v True (size_to_video v c)) = videoHeight v \<and>
      painted (drawImage v True (size_to_video v c)) = Some (frame v, True) \<and>
      capturedFile (photo_callback True (capturePhoto s)) =
        Some \<lparr>file_name = ''student_'' @
                 (if form_roll_no (form s) = [] then ''face'' else form_roll_no (form s)) @ ''.jpg'',
              file_type = ''image/jpeg'',
              file_data = \<lparr>mime = ''image/jpeg'', quality = Some 0.9,
                           pixels = drawImage v True (size_to_video v c)\<rparr>\<rparr> \<and>
      isCameraActive (photo_callback True (capturePhoto s)) = False \<and>
      streamRef (photo_callback True (capturePhoto s)) = None \<and>
      video_source (photo_callback True (capturePhoto s)) = None \<and>
      active_among (photo_callback True (capturePhoto s)) (held_tracks s) = []) \<and>
   (subject_chosen m = Some subject \<and> canvasRef m = Some c \<and> videoRef m = Some v \<and>
    readyState v = 4 \<and> blob_pending m = [] \<longrightarrow>
      canvasRef (captureAndProcess m) =
        Some (if has_context c then drawImage v False (size_to_video v c) else size_to_video v c) \<and>
      width (if has_context c then drawImage v False (size_to_video v c) else size_to_video v c)
        = videoWidth v \<and>
      height (if has_context c then drawImage v False (size_to_video v c) else size_to_video v c)
        = videoHeight v \<and>
      capturedImage (captureAndProcess m) =
        Some \<lparr>mime = ''image/jpeg'', quality = Some 0.9,
              pixels = (if has_context c then drawImage v False (size_to_video v c)
                        else size_to_video v c)\<rparr> \<and>
      requests (blob_callback True (captureAndProcess m)) = requests m @
        [(subject,
          \<lparr>file_name = ''classroom.jpg'', file_type = ''image/jpeg'',
           file_data = \<lparr>mime = ''image/jpeg'', quality = Some 0.9,
                        pixels = (if has_context c then drawImage v False (size_to_video v c)
                                  else size_to_video v c)\<rparr>\<rparr>)] \<and>
      isCameraActive (blob_callback True (captureAndProcess m)) = isCameraActive m \<and>
      streamRef (blob_callback True (captureAndProcess m)) = streamRef m \<and>
      live (blob_callback True (captureAndProcess m)) = live m)"
proof (intro conjI impI)
  assume h: "canvasRef s = Some c \<and> has_context c \<and> videoRef s = Some v \<and> readyState v = 4 \<and>
    photo_pending s = []"
  let ?cv = "drawImage v True (size_to_video v c)"
  let ?s1 = "s\<lparr>canvasRef := Some ?cv,
       photo_pending := photo_pending s @
         [(form_roll_no (form s), encode ?cv ''image/jpeg'' (Some 0.9))]\<rparr>"
  have cp: "capturePhoto s = ?s1"
    using capturePhoto_accepts[of s c v] h by simp
  let ?file = "\<lparr>file_name = ''student_'' @
                 (if form_roll_no (form s) = [] then ''face'' else form_roll_no (form s)) @ ''.jpg'',
              file_type = ''image/jpeg'',
              file_data = \<lparr>mime = ''image/jpeg'', quality = Some 0.9, pixels = ?cv\<rparr>\<rparr>"
  have cb: "photo_callback True ?s1 =
      stopCamera (s\<lparr>canvasRef := Some ?cv, photo_pending := [],
        capturedFile := Some ?file, capturedImage := Some (encode ?cv ''image/jpeg'' None)\<rparr>)"
    using h by (simp add: photo_callback_def Let_def encode_def)
  show "canvasRef (capturePhoto s) = Some ?cv" unfolding cp by simp
  show "width ?cv = videoWidth v" by (simp add: sized_canvas)
  show "height ?cv = videoHeight v" by (simp add: sized_canvas)
  show "painted ?cv = Some (frame v, True)" by (simp add: sized_canvas)
  show "capturedFile (photo_callback True (capturePhoto s)) = Some ?file"
    unfolding cp cb by (simp add: stopCamera_st_fields)
  show "isCameraActive (photo_callback True (capturePhoto s)) = False"
    unfolding cp cb by (rule stopCamera_inactive)
  show "streamRef (photo_callback True (capturePhoto s)) = None"
    unfolding cp cb by (rule stopCamera_streamRef)
  show "video_source (photo_callback True (capturePhoto s)) = None"
    unfolding cp cb by (rule stopCamera_video)
  show "active_among (photo_callback True (capturePhoto s)) (held_tracks s) = []"
    unfolding cp cb by (simp add: active_among_def stopCamera_live held_tracks_def)
next
  assume h: "subject_chosen m = Some subject \<and> canvasRef m = Some c \<and> videoRef m = Some v \<and>
    readyState v = 4 \<and> blob_pending m = []"
  let ?cv = "if has_context c then drawImage v False (size_to_video v c) else size_to_video v c"
  let ?m1 = "m\<lparr>canvasRef := Some ?cv,
       capturedImage := Some (encode ?cv ''image/jpeg'' (Some 0.9)),
       isProcessing := True, detectedStudents := [], error := None,
       blob_pending := blob_pending m @ [(subject, encode ?cv ''image/jpeg'' (Some 0.9))]\<rparr>"
  have cp: "captureAndProcess m = ?m1"
    using captureAndProcess_accepts[of m subject c v] h by simp
  have cb: "blob_callback True ?m1 =
      ?m1\<lparr>blob_pending := [],
          in_flight := in_flight m @ [(subject, \<lparr>file_name = ''classroom.jpg'',
             file_type = ''image/jpeg'', file_data = encode ?cv ''image/jpeg'' (Some 0.9)\<rparr>)],
          requests := requests m @ [(subject, \<lparr>file_name = ''classroom.jpg'',
             file_type = ''image/jpeg'', file_data = encode ?cv ''image/jpeg'' (Some 0.9)\<rparr>)]\<rparr>"
    using h by (simp add: blob_callback_def Let_def)
  show "canvasRef (captureAndProcess m) = Some ?cv" unfolding cp by simp
  show "width ?cv = videoWidth v" by (simp add: sized_canvas)
  show "height ?cv = videoHeight v" by (simp add: sized_canvas)
  show "capturedImage (captureAndProcess m) =
      Some \<lparr>mime = ''image/jpeg'', quality = Some 0.9, pixels = ?cv\<rparr>"
    unfolding cp by (simp add: encode_def)
  show "requests (blob_callback True (captureAndProcess m)) = requests m @
        [(subject, \<lparr>file_name = ''classroom.jpg'', file_type = ''image/jpeg'',
           file_data = \<lparr>mime = ''image/jpeg'', quality = Some 0.9, pixels = ?cv\<rparr>\<rparr>)]"
    unfolding cp cb by (simp add: encode_def)
  show "isCameraActive (blob_callback True (captureAndProcess m)) = isCameraActive m"
    unfolding cp cb by simp
  show "streamRef (blob_callback True (captureAndProcess m)) = streamRef m"
    unfolding cp cb by simp
  show "live (blob_callback True (captureAndProcess m)) = live m"
    unfolding cp cb by simp
qed

text \<open>
  C8 fails on the code. On the enrolment page, after two clicks on \<^verbatim>\<open>Start Camera\<close>
  answered by two grants, a capture with the video ready succeeds (the file is stored,
  a JPEG at quality 0.9 of the mirrored frame at the video's native 640 by 480) and
  \<^verbatim>\<open>stopCamera\<close> runs, but the first stream's track is still capturing: the second grant
  replaced the stream in \<^verbatim>\<open>streamRef\<close>, and only that one is stopped. On the attendance
  page the camera-active state is never reached, whatever happens, so no capture is
  ever started there, while the track of a granted stream stays live.
\<close>

theorem capture_leaves_track_capturing:
  "capturedFile (st_run [StClickStartCamera, StClickStartCamera, StCameraGranted [1],
      StCameraGranted [2], StVideoProgress 4 640 480 7, StClickCapture, PhotoReady True] st_init)
     = Some \<lparr>file_name = ''student_face.jpg'', file_type = ''image/jpeg'',
             file_data = \<lparr>mime = ''image/jpeg'', quality = Some 0.9,
                          pixels = \<lparr>width = 640, height = 480, has_context = True,
                                    painted = Some (7, True)\<rparr>\<rparr>\<rparr> \<and>
   isCameraActive (st_run [StClickStartCamera, StClickStartCamera, StCameraGranted [1],
      StCameraGranted [2], StVideoProgress 4 640 480 7, StClickCapture, PhotoReady True] st_init)
     = False \<and>
   streamRef (st_run [StClickStartCamera, StClickStartCamera, StCameraGranted [1],
      StCameraGranted [2], StVideoProgress 4 640 480 7, StClickCapture, PhotoReady True] st_init)
     = None \<and>
   live (st_run [StClickStartCamera, StClickStartCamera, StCameraGranted [1],
      StCameraGranted [2], StVideoProgress 4 640 480 7, StClickCapture, PhotoReady True] st_init) 2
     = False \<and>
   live (st_run [StClickStartCamera, StClickStartCamera, StCameraGranted [1],
      StCameraGranted [2], StVideoProgress 4 640 480 7, StClickCapture, PhotoReady True] st_init) 1 \<and>
   isCameraActive (ma_run es ma_init) = False \<and>
   blob_pending (ma_run es ma_init) = [] \<and>
   capturedImage (ma_run es ma_init) = None \<and>
   ma_step ClickCapture (ma_run es ma_init) = ma_run es ma_init \<and>
   live (ma_run [SelectSubject 3, ClickStartCamera, CameraGranted [1], ClickCapture] ma_init) 1"
proof -
  let ?T = "[StClickStartCamera, StClickStartCamera, StCameraGranted [1],
      StCameraGranted [2], StVideoProgress 4 640 480 7, StClickCapture, PhotoReady True]"
  have a: "capturedFile (st_run ?T st_init)
     = Some \<lparr>file_name = ''student_face.jpg'', file_type = ''image/jpeg'',
             file_data = \<lparr>mime = ''image/jpeg'', quality = Some 0.9,
                          pixels = \<lparr>width = 640, height = 480, has_context = True,
                                    painted = Some (7, True)\<rparr>\<rparr>\<rparr>"
    "isCameraActive (st_run ?T st_init) = False"
    "streamRef (st_run ?T st_init) = None"
    "live (st_run ?T st_init) 2 = False"
    "live (st_run ?T st_init) 1"
    by (simp_all add: st_init_def blank_form_def fresh_video_def fresh_canvas_def
        st_camera_granted_def media_progress_def capturePhoto_def photo_callback_def
        st_render_def stopCamera_def stop_tracks_def size_to_video_def drawImage_def encode_def
        Let_def)
  have n: "never_started (ma_run es ma_init)" by (rule never_started_reachable)
  have b: "isCameraActive (ma_run es ma_init) = False" "blob_pending (ma_run es ma_init) = []"
    "capturedImage (ma_run es ma_init) = None"
    using n by (simp_all add: never_started_def)
  have c: "ma_step ClickCapture (ma_run es ma_init) = ma_run es ma_init"
    using b(1) by simp
  have d: "live (ma_run [SelectSubject 3, ClickStartCamera, CameraGranted [1], ClickCapture] ma_init) 1"
    by (simp add: ma_init_def ma_camera_granted_def Let_def)
  from a b c d show ?thesis by (intro conjI)
qed


subsection \<open>Rejecting a submission locally\<close>

lemma captureAndProcess_rejects:
  "subject_chosen m = None \<or> canvasRef m = None \<or> videoRef m = None \<or>
   (\<exists>v. videoRef m = Some v \<and> readyState v \<noteq> 4) \<Longrightarrow>
   captureAndProcess m = m \<or>
   captureAndProcess m = m\<lparr>toasts := toasts m @ [toast_error ''Select a subject first'']\<rparr>"
  by (auto simp add: captureAndProcess_def split: option.splits)

lemma click_capture_rejects:
  "subject_chosen m = None \<or> canvasRef m = None \<or> videoRef m = None \<or>
   (\<exists>v. videoRef m = Some v \<and> readyState v \<noteq> 4) \<or> isProcessing m \<Longrightarrow>
   ma_step ClickCapture m = m \<or>
   ma_step ClickCapture m = m\<lparr>toasts := toasts m @ [toast_error ''Select a subject first'']\<rparr>"
  using captureAndProcess_rejects[of m] by auto

lemma click_capture_no_call:
  "ma_step ClickCapture m = m \<or>
   ma_step ClickCapture m = m\<lparr>toasts := toasts m @ [toast_error ''Select a subject first'']\<rparr> \<Longrightarrow>
   requests (ma_step ClickCapture m) = requests m \<and>
   in_flight (ma_step ClickCapture m) = in_flight m \<and>
   blob_pending (ma_step ClickCapture m) = blob_pending m"
  by (elim disjE) (simp_all only: ma_state.simps capture.simps, simp_all)

lemma submit_no_file: "capturedFile s = None \<Longrightarrow> submit s = s"
  by (simp add: submit_def)

lemma submit_form_rejects: "capturedFile s = None \<or> isProcessing s \<Longrightarrow> submit_form s = s"
  by (auto simp add: submit_form_def isFormValid_def)

lemma blob_missing_no_call:
  "requests (blob_callback False m) = requests m \<and> in_flight (blob_callback False m) = in_flight m"
  by (simp add: blob_callback_def ma_failed_def split: list.splits)

text \<open>
  C2. On the attendance screen a click on \<^verbatim>\<open>Capture & Mark\<close> with no subject selected
  (\<^verbatim>\<open>null\<close> or 0), or with no frame to capture (a ref is empty or the video is not ready),
  or while \<^verbatim>\<open>isProcessing\<close> is set, makes no call of the endpoint and starts no run; it
  leaves the state as it was, but for the toast that asks for a subject. The first two
  are guards of \<^verbatim>\<open>captureAndProcess\<close> itself, the third is the button's \<^verbatim>\<open>disabled\<close>
  attribute, and in every state the component reaches a submission in flight implies
  it. On the enrolment screen submitting the form without a captured file, or
  while \<^verbatim>\<open>isProcessing\<close> is set, leaves the state as it was, and \<^verbatim>\<open>submit\<close> itself returns at
  once without a file; there too at most one registration awaits its answer in every
  state the screen reaches, and while one does a further submission changes nothing.
  A frame that could not be encoded is not posted either.
\<close>

theorem submission_rejected_locally:
  "(subject_chosen m = None \<or> canvasRef m = None \<or> videoRef m = None \<or>
    (\<exists>v. videoRef m = Some v \<and> readyState v \<noteq> 4) \<or> isProcessing m \<longrightarrow>
      requests (ma_step ClickCapture m) = requests m \<and>
      in_flight (ma_step ClickCapture m) = in_flight m \<and>
      blob_pending (ma_step ClickCapture m) = blob_pending m \<and>
      (ma_step ClickCapture m = m \<or>
       ma_step ClickCapture m = m\<lparr>toasts := toasts m @ [toast_error ''Select a subject first'']\<rparr>)) \<and>
   (subject_chosen m = None \<or> canvasRef m = None \<or> videoRef m = None \<or>
    (\<exists>v. videoRef m = Some v \<and> readyState v \<noteq> 4) \<longrightarrow>
      captureAndProcess m = m \<or>
      captureAndProcess m = m\<lparr>toasts := toasts m @ [toast_error ''Select a subject first'']\<rparr>) \<and>
   (in_flight (ma_run es ma_init) \<noteq> [] \<longrightarrow>
      isProcessing (ma_run es ma_init) \<and>
      ma_step ClickCapture (ma_run es ma_init) = ma_run es ma_init) \<and>
   (capturedFile s = None \<or> isProcessing s \<longrightarrow>
      submit_form s = s \<and> registrations (submit_form s) = registrations s) \<and>
   (capturedFile s = None \<longrightarrow> submit s = s) \<and>
   (registering (st_run fs st_init) \<noteq> [] \<longrightarrow>
      isProcessing (st_run fs st_init) \<and>
      length (registering (st_run fs st_init)) = 1 \<and>
      st_step StSubmit (st_run fs st_init) = st_run fs st_init) \<and>
   requests (blob_callback False m) = requests m \<and>
   in_flight (blob_callback False m) = in_flight m"
proof (intro conjI impI)
  {
    assume h: "subject_chosen m = None \<or> canvasRef m = None \<or> videoRef m = None \<or>
      (\<exists>v. videoRef m = Some v \<and> readyState v \<noteq> 4) \<or> isProcessing m"
    then show d: "ma_step ClickCapture m = m \<or>
       ma_step ClickCapture m = m\<lparr>toasts := toasts m @ [toast_error ''Select a subject first'']\<rparr>"
      by (rule click_capture_rejects)
    from click_capture_no_call[OF d]
    show "requests (ma_step ClickCapture m) = requests m"
      and "in_flight (ma_step ClickCapture m) = in_flight m"
      and "blob_pending (ma_step ClickCapture m) = blob_pending m"
      by blast+
  }
  {
    assume "subject_chosen m = None \<or> canvasRef m = None \<or> videoRef m = None \<or>
      (\<exists>v. videoRef m = Some v \<and> readyState v \<noteq> 4)"
    then show "captureAndProcess m = m \<or>
      captureAndProcess m = m\<lparr>toasts := toasts m @ [toast_error ''Select a subject first'']\<rparr>"
      by (rule captureAndProcess_rejects)
  }
  {
    assume fl: "in_flight (ma_run es ma_init) \<noteq> []"
    have inv: "ma_inv (ma_run es ma_init)" by (rule ma_inv_reachable)
    have "pending_runs (ma_run es ma_init) \<noteq> 0" using fl by (simp add: pending_runs_def)
    with inv show p: "isProcessing (ma_run es ma_init)" by (rule ma_inv_busy)
    then show "ma_step ClickCapture (ma_run es ma_init) = ma_run es ma_init"
      by (rule click_while_processing)
  }
  {
    assume h: "capturedFile s = None \<or> isProcessing s"
    then show e: "submit_form s = s" by (rule submit_form_rejects)
    show "registrations (submit_form s) = registrations s" unfolding e by (rule refl)
  }
  {
    assume "capturedFile s = None"
    then show "submit s = s" by (rule submit_no_file)
  }
  {
    assume r: "registering (st_run fs st_init) \<noteq> []"
    have inv: "st_inv (st_run fs st_init)" by (rule st_inv_reachable)
    from st_registering_busy[OF inv r]
    show p: "isProcessing (st_run fs st_init)"
      and "length (registering (st_run fs st_init)) = 1"
      by simp_all
    from p show "st_step StSubmit (st_run fs st_init) = st_run fs st_init"
      by (simp add: submit_form_def)
  }
  show "requests (blob_callback False m) = requests m"
    using blob_missing_no_call[of m] by blast
  show "in_flight (blob_callback False m) = in_flight m"
    using blob_missing_no_call[of m] by blast
qed

theorem submission_rejected_locally_witness:
  "requests (ma_step ClickCapture (ma_init\<lparr>isCameraActive := True\<rparr>)) = requests (ma_init\<lparr>isCameraActive := True\<rparr>) \<and>
   blob_pending (ma_step ClickCapture (ma_init\<lparr>isCameraActive := True\<rparr>))
     = blob_pending (ma_init\<lparr>isCameraActive := True\<rparr>) \<and>
   submit_form
     \<lparr>isCameraActive = False, isProcessing = False, capturedImage = None, streamRef = None,
      videoRef = None, canvasRef = None, live = (\<lambda>t. False), requesting = 0, toasts = [],
      capturedFile = None, registrationSuccess = False,
      form = \<lparr>form_name = ''Asha'', form_roll_no = ''R12'', form_year = ''3'',
              form_branch = ''CSE'', form_section = ''A''\<rparr>,
      photo_pending = [], reads_pending = [], registering = [], registrations = [],
      reset_timers = 0\<rparr>
   = \<lparr>isCameraActive = False, isProcessing = False, capturedImage = None, streamRef = None,
      videoRef = None, canvasRef = None, live = (\<lambda>t. False), requesting = 0, toasts = [],
      capturedFile = None, registrationSuccess = False,
      form = \<lparr>form_name = ''Asha'', form_roll_no = ''R12'', form_year = ''3'',
              form_branch = ''CSE'', form_section = ''A''\<rparr>,
      photo_pending = [], reads_pending = [], registering = [], registrations = [],
      reset_timers = 0\<rparr> \<and>
   st_step StSubmit (st_run
     [StClickStartCamera, StCameraGranted [1], StVideoProgress 4 640 480 7,
      StEditForm \<lparr>form_name = ''Asha'', form_roll_no = ''R12'', form_year = ''3'',
                  form_branch = ''CSE'', form_section = ''A''\<rparr>,
      StClickCapture, PhotoReady True, StSubmit] st_init)
   = st_run
     [StClickStartCamera, StCameraGranted [1], StVideoProgress 4 640 480 7,
      StEditForm \<lparr>form_name = ''Asha'', form_roll_no = ''R12'', form_year = ''3'',
                  form_branch = ''CSE'', form_section = ''A''\<rparr>,
      StClickCapture, PhotoReady True, StSubmit] st_init \<and>
   (captureAndProcess (ma_init\<lparr>isCameraActive := True\<rparr>) = ma_init\<lparr>isCameraActive := True\<rparr> \<or>
    captureAndProcess (ma_init\<lparr>isCameraActive := True\<rparr>) =
      ma_init\<lparr>isCameraActive := True,
        toasts := toasts (ma_init\<lparr>isCameraActive := True\<rparr>) @
          [toast_error ''Select a subject first'']\<rparr>) \<and>
   submit
     \<lparr>isCameraActive = False, isProcessing = False, capturedImage = None, streamRef = None,
      videoRef = None, canvasRef = None, live = (\<lambda>t. False), requesting = 0, toasts = [],
      capturedFile = None, registrationSuccess = False,
      form = \<lparr>form_name = ''Asha'', form_roll_no = ''R12'', form_year = ''3'',
              form_branch = ''CSE'', form_section = ''A''\<rparr>,
      photo_pending = [], reads_pending = [], registering = [], registrations = [],
      reset_timers = 0\<rparr>
   = \<lparr>isCameraActive = False, isProcessing = False, capturedImage = None, streamRef = None,
      videoRef = None, canvasRef = None, live = (\<lambda>t. False), requesting = 0, toasts = [],
      capturedFile = None, registrationSuccess = False,
      form = \<lparr>form_name = ''Asha'', form_roll_no = ''R12'', form_year = ''3'',
              form_branch = ''CSE'', form_section = ''A''\<rparr>,
      photo_pending = [], reads_pending = [], registering = [], registrations = [],
      reset_timers = 0\<rparr>"
proof -
  let ?fs = "[StClickStartCamera, StCameraGranted [1], StVideoProgress 4 640 480 7,
      StEditForm \<lparr>form_name = ''Asha'', form_roll_no = ''R12'', form_year = ''3'',
                  form_branch = ''CSE'', form_section = ''A''\<rparr>,
      StClickCapture, PhotoReady True, StSubmit]"
  have white: "\<not> trimmed_empty ''Asha''" "\<not> trimmed_empty ''R12''" "\<not> trimmed_empty ''3''"
    "\<not> trimmed_empty ''CSE''" "\<not> trimmed_empty ''A''"
    by code_simp+
  have rg: "registering (st_run ?fs st_init) \<noteq> []"
    by (simp add: st_init_def fresh_video_def fresh_canvas_def st_camera_granted_def
        media_progress_def capturePhoto_def photo_callback_def st_render_def stopCamera_def
        stop_tracks_def size_to_video_def drawImage_def encode_def submit_form_def submit_def
        isFormValid_def white Let_def)
  let ?m = "ma_init\<lparr>isCameraActive := True\<rparr>"
  let ?s = "\<lparr>isCameraActive = False, isProcessing = False, capturedImage = None, streamRef = None,
      videoRef = None, canvasRef = None, live = (\<lambda>t. False), requesting = 0, toasts = [],
      capturedFile = None, registrationSuccess = False,
      form = \<lparr>form_name = ''Asha'', form_roll_no = ''R12'', form_year = ''3'',
              form_branch = ''CSE'', form_section = ''A''\<rparr>,
      photo_pending = [], reads_pending = [], registering = [], registrations = [],
      reset_timers = 0\<rparr>"
  have hm: "subject_chosen ?m = None \<or> canvasRef ?m = None \<or> videoRef ?m = None \<or>
    (\<exists>v. videoRef ?m = Some v \<and> readyState v \<noteq> 4) \<or> isProcessing ?m"
    by (simp add: subject_chosen_def ma_init_def)
  have hs: "capturedFile ?s = None \<or> isProcessing ?s" by simp
  note t = submission_rejected_locally[where m = ?m and s = ?s and fs = ?fs]
  note t1 = t[THEN conjunct1, THEN mp, OF hm]
  note t4 = t[THEN conjunct2, THEN conjunct2, THEN conjunct2, THEN conjunct1, THEN mp, OF hs]
  note t6 = t[THEN conjunct2, THEN conjunct2, THEN conjunct2, THEN conjunct2, THEN conjunct2,
      THEN conjunct1, THEN mp, OF rg]
  have 1: "requests (ma_step ClickCapture ?m) = requests ?m" using t1 by (elim conjE)
  have 2: "blob_pending (ma_step ClickCapture ?m) = blob_pending ?m" using t1 by (elim conjE)
  have 4: "submit_form ?s = ?s" using t4 by (elim conjE)
  have 5: "st_step StSubmit (st_run ?fs st_init) = st_run ?fs st_init" using t6 by (elim conjE)
  have hc: "subject_chosen ?m = None \<or> canvasRef ?m = None \<or> videoRef ?m = None \<or>
    (\<exists>v. videoRef ?m = Some v \<and> readyState v \<noteq> 4)"
    by (simp add: subject_chosen_def ma_init_def)
  have 6: "captureAndProcess ?m = ?m \<or>
      captureAndProcess ?m = ?m\<lparr>toasts := toasts ?m @ [toast_error ''Select a subject first'']\<rparr>"
    using t[THEN conjunct2, THEN conjunct1, THEN mp, OF hc] .
  have nf: "capturedFile ?s = None" by simp
  have 7: "submit ?s = ?s"
    using t[THEN conjunct2, THEN conjunct2, THEN conjunct2, THEN conjunct2, THEN conjunct1,
        THEN mp, OF nf] .
  from 1 2 4 5 6 7 show ?thesis by (intro conjI)
qed


end
